theory Spec2Isabelle
  imports Main "HOL-Library.Sublist"
begin

section \<open>Turbinia common utilities: \<^verbatim>\<open>turbinia/lib/utils.py\<close>\<close>

text \<open>
  The module drives two families of external tools: Plaso's \<^verbatim>\<open>image_export.py\<close>
  (functions \<^verbatim>\<open>_image_export\<close>, \<^verbatim>\<open>extract_artifacts\<close>, \<^verbatim>\<open>extract_files\<close>) and the
  password crackers \<^verbatim>\<open>john\<close> and \<^verbatim>\<open>hashcat\<close> (\<^verbatim>\<open>bruteforce_password_hashes\<close>).

  The embedding is shallow. Python strings are \<open>string\<close>s, read as sequences of code
  points below 256. Everything the module does to the outside (the file system, the
  processes it starts) is explicit: a function takes the state of the operating system
  and returns the new one, next to its result. A raised exception is the \<open>Inl\<close> of a sum.
  What the external tools themselves do is not part of the module: it is a parameter,
  three functions of the record \<open>env\<close>; so is what opening, decoding and removing a file
  give. \<^verbatim>\<open>get_exe_path\<close> is called by none of these functions
  and is not modelled.
\<close>

subsection \<open>Python values, exceptions and string operations\<close>

text \<open>
  The values read from the dependency map are dynamically typed: \<^verbatim>\<open>None\<close>, a string, an
  integer; the command is a list of strings.
\<close>

datatype pyval = PNone | PStr string | PInt int | PList "string list"

datatype error =
    TurbiniaException string
  | TypeError string
  | ValueError string
  | AttributeError string
  | OSError string
  | UnicodeDecodeError string   \<comment> \<open>in Python a subclass of \<^verbatim>\<open>ValueError\<close>\<close>

text \<open>\<^verbatim>\<open>sep.join(xs)\<close>.\<close>

fun join :: "string \<Rightarrow> string list \<Rightarrow> string" where
  "join sep [] = []"
| "join sep [x] = x"
| "join sep (x # y # ys) = x @ sep @ join sep (y # ys)"

text \<open>
  \<^verbatim>\<open>'{:s}'.format(v)\<close> and the \<^verbatim>\<open>{v:s}\<close> of an f-string. Only \<^verbatim>\<open>str\<close> has the
  presentation type \<^verbatim>\<open>s\<close>: \<^verbatim>\<open>list\<close> and \<^verbatim>\<open>NoneType\<close> inherit \<^verbatim>\<open>object.__format__\<close>, which
  raises \<^verbatim>\<open>TypeError\<close> for every non-empty format specification, and \<^verbatim>\<open>int\<close> rejects
  the code \<^verbatim>\<open>s\<close> with \<^verbatim>\<open>ValueError\<close>.
\<close>

fun format_s :: "pyval \<Rightarrow> error + string" where
  "format_s (PStr s) = Inr s"
| "format_s (PList xs) = Inl (TypeError ''unsupported format string passed to list.__format__'')"
| "format_s PNone = Inl (TypeError ''unsupported format string passed to NoneType.__format__'')"
| "format_s (PInt i) = Inl (ValueError ''Unknown format code s for object of type int'')"

text \<open>\<^verbatim>\<open>f'{n:d}'\<close> for an integer: decimal digits, with a minus sign when negative.\<close>

fun digits :: "nat \<Rightarrow> string" where
  "digits n =
     (if n < 10 then [''0123456789'' ! n]
      else digits (n div 10) @ [''0123456789'' ! (n mod 10)])"

declare digits.simps [simp del]

definition format_d :: "int \<Rightarrow> string" where
  "format_d i = (if i < 0 then CHR ''-'' # digits (nat (- i)) else digits (nat i))"

text \<open>\<^verbatim>\<open>str.lower()\<close>, on the letters A to Z.\<close>

definition lower_char :: "char \<Rightarrow> char" where
  "lower_char c =
     (if 65 \<le> (of_char c :: nat) \<and> (of_char c :: nat) \<le> 90
      then char_of ((of_char c :: nat) + 32) else c)"

definition lower :: "string \<Rightarrow> string" where
  "lower s = map lower_char s"

text \<open>\<^verbatim>\<open>os.path.join(a, b)\<close> of \<^verbatim>\<open>posixpath\<close>, for two components.\<close>

definition os_path_join :: "string \<Rightarrow> string \<Rightarrow> string" where
  "os_path_join a b =
     (if b \<noteq> [] \<and> hd b = CHR ''/'' then b
      else if a = [] \<or> last a = CHR ''/'' then a @ b
      else a @ ''/'' @ b)"

text \<open>
  \<^verbatim>\<open>s.split(sep)\<close> with a separator of one character: every occurrence of the separator
  ends a token, so two separators in a row give an empty token, and the empty string
  gives one empty token.
\<close>

fun split_on :: "char \<Rightarrow> string \<Rightarrow> string list" where
  "split_on sep [] = [[]]"
| "split_on sep (c # cs) =
     (if c = sep then [] # split_on sep cs
      else (case split_on sep cs of
              [] \<Rightarrow> [[c]]
            | t # ts \<Rightarrow> (c # t) # ts))"

text \<open>
  \<^verbatim>\<open>s.rsplit(sep, 1)\<close> with a separator of one character: the string is cut at its last
  occurrence; without an occurrence the result is the one-element list \<^verbatim>\<open>[s]\<close>.
\<close>

definition rsplit1 :: "char \<Rightarrow> string \<Rightarrow> string list" where
  "rsplit1 sep s =
     (let r = rev s;
          after = takeWhile (\<lambda>c. c \<noteq> sep) r;
          rest = dropWhile (\<lambda>c. c \<noteq> sep) r
      in if rest = [] then [s] else [rev (tl rest), rev after])"

text \<open>The tuple assignment \<^verbatim>\<open>a, b = xs\<close>.\<close>

fun unpack2 :: "string list \<Rightarrow> error + (string \<times> string)" where
  "unpack2 [] = Inl (ValueError ''not enough values to unpack (expected 2, got 0)'')"
| "unpack2 [a] = Inl (ValueError ''not enough values to unpack (expected 2, got 1)'')"
| "unpack2 [a, b] = Inr (a, b)"
| "unpack2 (a # b # c # cs) = Inl (ValueError ''too many values to unpack (expected 2)'')"

text \<open>
  \<^verbatim>\<open>s.rstrip()\<close>: the code points below 256 that \<^verbatim>\<open>str.isspace\<close> accepts are
  9 to 13, 28 to 32, 133 and 160.
\<close>

definition is_space :: "char \<Rightarrow> bool" where
  "is_space c =
     (let n = (of_char c :: nat)
      in (9 \<le> n \<and> n \<le> 13) \<or> (28 \<le> n \<and> n \<le> 32) \<or> n = 133 \<or> n = 160)"

definition rstrip :: "string \<Rightarrow> string" where
  "rstrip s = rev (dropWhile is_space (rev s))"

text \<open>\<^verbatim>\<open>needle in haystack\<close> for strings.\<close>

fun contains :: "string \<Rightarrow> string \<Rightarrow> bool" where
  "contains needle [] = (needle = [])"
| "contains needle (c # cs) = (prefix needle (c # cs) \<or> contains needle cs)"

text \<open>
  Reading a text file opened with \<^verbatim>\<open>open(path, 'r')\<close> line by line. The default
  newline mode translates \<^verbatim>\<open>\r\n\<close> and \<^verbatim>\<open>\r\<close> to \<^verbatim>\<open>\n\<close>; every line but possibly the last
  ends with \<^verbatim>\<open>\n\<close>, which stays part of the line.
\<close>

fun translate_newlines :: "string \<Rightarrow> string" where
  "translate_newlines [] = []"
| "translate_newlines [c] = (if c = CHR 0x0D then [CHR 0x0A] else [c])"
| "translate_newlines (c # d # cs) =
     (if c = CHR 0x0D then
        (if d = CHR 0x0A then CHR 0x0A # translate_newlines cs
         else CHR 0x0A # translate_newlines (d # cs))
      else c # translate_newlines (d # cs))"

fun split_lines :: "string \<Rightarrow> string list" where
  "split_lines [] = []"
| "split_lines (c # cs) =
     (if c = CHR 0x0A then [c] # split_lines cs
      else (case split_lines cs of
              [] \<Rightarrow> [[c]]
            | l # ls \<Rightarrow> (c # l) # ls))"

definition file_lines :: "string \<Rightarrow> string list" where
  "file_lines content = split_lines (translate_newlines content)"

subsection \<open>The operating system and the configuration\<close>

text \<open>
  An external tool is started in one of three ways; \<open>invoked\<close> below records each
  attempt to start one, in order, with its arguments.
\<close>

datatype call =
    CheckCall "string list" int
      \<comment> \<open>\<^verbatim>\<open>subprocess.check_call(command, timeout=timeout)\<close>\<close>
  | ExecuteContainer pyval "string list" "string list" "string list" pyval
      \<comment> \<open>\<^verbatim>\<open>ContainerManager(image).execute_container(command, shell=False,
          ro_paths, rw_paths, timeout_limit)\<close>\<close>
  | Popen "string list" int
      \<comment> \<open>\<^verbatim>\<open>subprocess.Popen(cmd)\<close>, terminated by a timer after \<open>timeout\<close> seconds\<close>

text \<open>
  The state: the regular files by path with their text (\<^verbatim>\<open>os.path.isfile\<close>, \<^verbatim>\<open>open\<close>,
  \<^verbatim>\<open>os.remove\<close>), what \<^verbatim>\<open>os.walk(top)\<close> yields for a directory (triples of directory
  path, sub-directory names and file names), the tools started so far, and the number of
  temporary files created.
\<close>

record os_state =
  files :: "string \<rightharpoonup> string"
  walk :: "string \<Rightarrow> (string \<times> string list \<times> string list) list"
  invoked :: "call list"
  temp_count :: nat

text \<open>How a tool start ends, as the module sees it.\<close>

datatype check_outcome =
    Completed                     \<comment> \<open>exit status 0\<close>
  | CalledProcessError string     \<comment> \<open>non-zero exit status; the string is \<^verbatim>\<open>str(exception)\<close>\<close>
  | TimeoutExpired string         \<comment> \<open>the timeout passed; the string is \<^verbatim>\<open>str(exception)\<close>\<close>
  | CheckOSError string           \<comment> \<open>the program could not be started\<close>

datatype container_outcome =
    ContainerRaised error
  | ContainerReturned string string int   \<comment> \<open>\<^verbatim>\<open>stdout, stderr, ret\<close>\<close>

datatype popen_outcome =
    Ran bool               \<comment> \<open>the child ended; \<open>True\<close> when the timer terminated it\<close>
  | PopenOSError string    \<comment> \<open>\<^verbatim>\<open>Popen\<close> raised \<^verbatim>\<open>OSError\<close>; the string is \<^verbatim>\<open>str(exception)\<close>\<close>

text \<open>
  Reading a file with \<^verbatim>\<open>open(path, 'r')\<close> and a loop over its lines. The bytes of the file
  are decoded in the encoding of the locale, chunk by chunk while the lines are read:
  either all of them decode, or \<^verbatim>\<open>UnicodeDecodeError\<close> is raised at the first chunk that
  does not, after the lines before that chunk have been read, or \<^verbatim>\<open>open\<close> itself raises
  \<^verbatim>\<open>OSError\<close> (a file that may not be read).
\<close>

datatype text_read =
    Decoded string        \<comment> \<open>the text of the whole file\<close>
  | DecodeError string    \<comment> \<open>the text of the lines read before the exception\<close>
  | OpenError string      \<comment> \<open>\<^verbatim>\<open>open\<close> raised \<^verbatim>\<open>OSError\<close>; the string is \<^verbatim>\<open>str(exception)\<close>\<close>

text \<open>
  The configuration (\<^verbatim>\<open>config.DOCKER_ENABLED\<close>, \<^verbatim>\<open>config.ParseDependencies()\<close>: a
  dictionary from job names to dictionaries, here association lists), the process
  environment (the home directory \<^verbatim>\<open>~\<close> expands to, \<^verbatim>\<open>tempfile.gettempdir()\<close>, the names
  \<^verbatim>\<open>tempfile\<close> chooses), the behaviour of the tools (what a start returns and the state it
  leaves), what reading a file as text gives (from its path and its bytes), and whether
  \<^verbatim>\<open>os.remove\<close> of a file raises \<^verbatim>\<open>OSError\<close> (then with the message of the exception).
\<close>

record env =
  DOCKER_ENABLED :: bool
  dependencies :: "string \<rightharpoonup> (string \<times> pyval) list"
  home :: string
  gettempdir :: string
  temp_name :: "nat \<Rightarrow> string"
  check_call :: "string list \<Rightarrow> int \<Rightarrow> os_state \<Rightarrow> check_outcome \<times> os_state"
  execute_container ::
    "pyval \<Rightarrow> string list \<Rightarrow> string list \<Rightarrow> string list \<Rightarrow> pyval \<Rightarrow> os_state
       \<Rightarrow> container_outcome \<times> os_state"
  popen :: "string list \<Rightarrow> int \<Rightarrow> os_state \<Rightarrow> popen_outcome \<times> os_state"
  open_text :: "string \<Rightarrow> string \<Rightarrow> text_read"
  remove_error :: "string \<Rightarrow> string option"

text \<open>\<^verbatim>\<open>d.get(key)\<close> on a dictionary: \<^verbatim>\<open>None\<close> for a missing key.\<close>

definition dict_get :: "(string \<times> pyval) list \<Rightarrow> string \<Rightarrow> pyval" where
  "dict_get d k = (case map_of d k of None \<Rightarrow> PNone | Some v \<Rightarrow> v)"

definition record_call :: "call \<Rightarrow> os_state \<Rightarrow> os_state \<Rightarrow> os_state" where
  \<comment> \<open>the state a tool left, with the start appended to the starts before it\<close>
  "record_call c before after = after\<lparr>invoked := invoked before @ [c]\<rparr>"

definition isfile :: "os_state \<Rightarrow> string \<Rightarrow> bool" where
  "isfile s path = (files s path \<noteq> None)"

text \<open>
  \<^verbatim>\<open>os.path.expanduser\<close> for the current user: a leading \<^verbatim>\<open>~\<close> alone or before a slash
  becomes the home directory without its trailing slashes. Other paths are returned
  unchanged (as are those of a user unknown to the system).
\<close>

definition expanduser :: "env \<Rightarrow> string \<Rightarrow> string" where
  "expanduser e path =
     (case path of
        [] \<Rightarrow> path
      | c # rest \<Rightarrow>
          if c = CHR ''~'' \<and> (rest = [] \<or> hd rest = CHR ''/'') then
            (let userhome = rev (dropWhile (\<lambda>c. c = CHR ''/'') (rev (home e)))
             in if userhome @ rest = [] then ''/'' else userhome @ rest)
          else path)"

text \<open>
  \<^verbatim>\<open>with tempfile.NamedTemporaryFile(delete=False, mode='w+') as f: f.write(content)\<close>:
  a file under a name of \<^verbatim>\<open>tempfile\<close>'s choice, which stays after the block.
\<close>

definition named_temporary_file :: "env \<Rightarrow> string \<Rightarrow> os_state \<Rightarrow> string \<times> os_state" where
  "named_temporary_file e content s =
     (let name = temp_name e (temp_count s)
      in (name, s\<lparr>files := (files s)(name \<mapsto> content), temp_count := Suc (temp_count s)\<rparr>))"

subsection \<open>Running \<^verbatim>\<open>image_export.py\<close>\<close>

definition DEFAULT_TIMEOUT :: int where
  "DEFAULT_TIMEOUT = 7200"

definition job_name :: string where
  "job_name = lower ''FileArtifactExtractionJob''"

text \<open>
  Lines 80 to 88: the two nested loops over \<^verbatim>\<open>os.walk(output_dir)\<close>, each file name
  appended to the list joined to its directory.
\<close>

definition collect_file_paths :: "(string \<times> string list \<times> string list) list \<Rightarrow> string list" where
  "collect_file_paths triples =
     foldl (\<lambda>collected (dirpath, _, filenames).
              foldl (\<lambda>acc filename. acc @ [os_path_join dirpath filename]) collected filenames)
           [] triples"

text \<open>
  \<^verbatim>\<open>_image_export(command, output_dir, disk_path, timeout)\<close>, lines 33 to 88 (an
  identifier cannot start with an underscore here).

  In the container branch the log message is formatted before the container is started:
  \<^verbatim>\<open>'Executing job {0:s} in container: {1:s}'.format(command, docker_image)\<close>, with the
  command, a list, under \<^verbatim>\<open>{0:s}\<close>. The import of the docker manager and the construction
  of the container manager before it are taken to succeed. The exit status \<^verbatim>\<open>ret\<close> that the
  container manager returns is not looked at. In the local branch \<^verbatim>\<open>sudo\<close> is inserted in front of the
  command; \<^verbatim>\<open>CalledProcessError\<close> and \<^verbatim>\<open>TimeoutExpired\<close> are caught and raised again as
  \<^verbatim>\<open>TurbiniaException\<close>, any other exception of \<^verbatim>\<open>check_call\<close> passes through.
  Loading the configuration and the other log lines have no effect here.
\<close>

definition image_export ::
  "env \<Rightarrow> string list \<Rightarrow> string \<Rightarrow> string \<Rightarrow> int \<Rightarrow> os_state \<Rightarrow> (error + string list) \<times> os_state"
where
  "image_export e command output_dir disk_path timeout s =
     (let docker_image =
            (case dependencies e job_name of
               None \<Rightarrow> PNone
             | Some d \<Rightarrow> if d \<noteq> [] then dict_get d ''docker_image'' else PNone)
      in
      if DOCKER_ENABLED e \<and> docker_image \<noteq> PNone then
        (let ro_paths = [disk_path]; rw_paths = [output_dir] in
         case format_s (PList command) of
           Inl err \<Rightarrow> (Inl err, s)
         | Inr _ \<Rightarrow>
            (case format_s docker_image of
               Inl err \<Rightarrow> (Inl err, s)
             | Inr _ \<Rightarrow>
                (case dependencies e job_name of
                   None \<Rightarrow> (Inl (AttributeError ''get''), s)
                 | Some d \<Rightarrow>
                    (let job_timeout = dict_get d ''timeout'';
                         job_timeout = (if job_timeout = PNone then PInt timeout else job_timeout)
                     in case execute_container e docker_image command ro_paths rw_paths
                               job_timeout s of
                          (ContainerRaised err, s') \<Rightarrow>
                            (Inl err,
                             record_call (ExecuteContainer docker_image command ro_paths
                                            rw_paths job_timeout) s s')
                        | (ContainerReturned stdout stderr ret, s') \<Rightarrow>
                            (Inr (collect_file_paths (walk s' output_dir)),
                             record_call (ExecuteContainer docker_image command ro_paths
                                            rw_paths job_timeout) s s')))))
      else
        (let command = ''sudo'' # command in
         case check_call e command timeout s of
           (CalledProcessError msg, s') \<Rightarrow>
             (Inl (TurbiniaException (''image_export.py failed: '' @ msg)),
              record_call (CheckCall command timeout) s s')
         | (TimeoutExpired msg, s') \<Rightarrow>
             (Inl (TurbiniaException
                     (''image_export.py timed out after '' @ format_d timeout @ ''s: '' @ msg)),
              record_call (CheckCall command timeout) s s')
         | (CheckOSError msg, s') \<Rightarrow>
             (Inl (OSError msg), record_call (CheckCall command timeout) s s')
         | (Completed, s') \<Rightarrow>
             (Inr (collect_file_paths (walk s' output_dir)),
              record_call (CheckCall command timeout) s s')))"

subsection \<open>Building the \<^verbatim>\<open>image_export.py\<close> command\<close>

text \<open>
  Lines 113 to 116 and 147 to 150: the loop that extends the command by two arguments for
  each credential pair.
\<close>

definition extend_credentials :: "string list \<Rightarrow> (string \<times> string) list \<Rightarrow> string list" where
  "extend_credentials image_export_cmd credentials =
     (if credentials \<noteq> [] then
        foldl (\<lambda>cmd (credential_type, credential_data).
                 cmd @ [''--credential'', credential_type @ '':'' @ credential_data])
              image_export_cmd credentials
      else image_export_cmd)"

text \<open>\<^verbatim>\<open>extract_artifacts\<close>, lines 106 to 118: the command.\<close>

definition extract_artifacts_cmd ::
  "string list \<Rightarrow> string \<Rightarrow> string \<Rightarrow> (string \<times> string) list \<Rightarrow> string list"
where
  "extract_artifacts_cmd artifact_names disk_path output_dir credentials =
     (let artifacts = join '','' artifact_names;
          image_export_cmd =
            [''image_export.py'', ''--artifact_filters'', artifacts, ''--write'', output_dir,
             ''--partitions'', ''all'', ''--volumes'', ''all'', ''--unattended''];
          image_export_cmd = extend_credentials image_export_cmd credentials
      in image_export_cmd @ [disk_path])"

definition extract_artifacts ::
  "env \<Rightarrow> string list \<Rightarrow> string \<Rightarrow> string \<Rightarrow> (string \<times> string) list \<Rightarrow> os_state
     \<Rightarrow> (error + string list) \<times> os_state"
where
  "extract_artifacts e artifact_names disk_path output_dir credentials s =
     image_export e (extract_artifacts_cmd artifact_names disk_path output_dir credentials)
       output_dir disk_path DEFAULT_TIMEOUT s"

text \<open>\<^verbatim>\<open>extract_files\<close>, lines 142 to 152: the command.\<close>

definition extract_files_cmd ::
  "string \<Rightarrow> string \<Rightarrow> string \<Rightarrow> (string \<times> string) list \<Rightarrow> string list"
where
  "extract_files_cmd file_name disk_path output_dir credentials =
     (let image_export_cmd =
            [''image_export.py'', ''--name'', file_name, ''--write'', output_dir,
             ''--partitions'', ''all'', ''--volumes'', ''all''];
          image_export_cmd = extend_credentials image_export_cmd credentials
      in image_export_cmd @ [disk_path])"

text \<open>\<^verbatim>\<open>extract_files\<close>, lines 138 to 154, with the check of the disk path first.\<close>

definition extract_files ::
  "env \<Rightarrow> string \<Rightarrow> string \<Rightarrow> string \<Rightarrow> (string \<times> string) list \<Rightarrow> os_state
     \<Rightarrow> (error + string list) \<times> os_state"
where
  "extract_files e file_name disk_path output_dir credentials s =
     (if disk_path = [] then
        (Inl (TurbiniaException ''image_export.py failed: Attempted to run with no local_path''), s)
      else
        image_export e (extract_files_cmd file_name disk_path output_dir credentials)
          output_dir disk_path DEFAULT_TIMEOUT s)"

subsection \<open>Cracking password hashes\<close>

text \<open>
  \<^verbatim>\<open>bruteforce_password_hashes\<close>, lines 193 to 229: the hashes are written to a temporary
  file, the password list and the rules file are looked for, and the command is chosen
  together with the file the tool stores its results in. The result is the exception
  raised, or the command and the result store.
\<close>

definition crack_command ::
  "env \<Rightarrow> string list \<Rightarrow> string \<Rightarrow> string \<Rightarrow> os_state
     \<Rightarrow> (error + (string list \<times> string)) \<times> os_state"
where
  "crack_command e password_hashes tmp_dir extra_args s =
     (let (password_hashes_file_path, s1) =
            named_temporary_file e (join [CHR 0x0A] password_hashes) s;
          pot_file =
            os_path_join (if tmp_dir \<noteq> [] then tmp_dir else gettempdir e) ''hashcat.pot'';
          password_list_file_path = expanduser e ''~/password.lst'';
          password_rules_file_path = expanduser e ''~/turbinia-password-cracking.rules'';
          password_list_file_path =
            (if \<not> isfile s1 password_list_file_path then ''/usr/share/john/password.lst''
             else password_list_file_path)
      in
      if \<not> isfile s1 password_list_file_path then
        (Inl (TurbiniaException ''No password list available''), s1)
      else
        (let (password_rules_file_path, s2) =
               (if \<not> isfile s1 password_rules_file_path
                then named_temporary_file e (join [CHR 0x0A] ['':'', ''d'']) s1
                else (password_rules_file_path, s1))
         in
         if contains ''$y$'' (join [] password_hashes) then
           (Inr ([''john'', ''--format=crypt'', ''--wordlist='' @ password_list_file_path,
                  password_hashes_file_path],
                 expanduser e ''~/.john/john.pot''), s2)
         else
           (let cmd = [''hashcat'', ''--force'', ''-a'', ''0''];
                cmd = (if extra_args \<noteq> [] then cmd @ split_on (CHR '' '') extra_args else cmd);
                cmd = cmd @ [''--potfile-path='' @ pot_file];
                cmd = cmd @ [password_hashes_file_path, password_list_file_path];
                cmd = cmd @ [''-r'', password_rules_file_path]
            in (Inr (cmd, pot_file), s2))))"

text \<open>
  Lines 247 to 251: the loop over the lines of the result store. A line that
  \<^verbatim>\<open>rsplit(':', 1)\<close> does not cut in two ends the loop with the \<^verbatim>\<open>ValueError\<close> of the
  tuple assignment.
\<close>

fun parse_pot_lines ::
  "string list \<Rightarrow> (string \<times> string) list \<Rightarrow> error + (string \<times> string) list"
where
  "parse_pot_lines [] result = Inr result"
| "parse_pot_lines (line # rest) result =
     (case unpack2 (rsplit1 (CHR '':'') line) of
        Inl err \<Rightarrow> Inl err
      | Inr (password_hash, plaintext) \<Rightarrow>
          (let plaintext = rstrip plaintext
           in if plaintext \<noteq> [] then parse_pot_lines rest (result @ [(password_hash, plaintext)])
              else parse_pot_lines rest result))"

text \<open>
  Lines 243 to 254: the result store is read when it is a file, and removed after the
  loop. Every exception leaves it in place: that of \<^verbatim>\<open>open\<close>, that of the tuple assignment
  in the loop, that of the decoding (raised after the lines before it went through the
  loop), and that of \<^verbatim>\<open>os.remove\<close> itself.
\<close>

definition read_results ::
  "env \<Rightarrow> string \<Rightarrow> os_state \<Rightarrow> (error + (string \<times> string) list) \<times> os_state"
where
  "read_results e pot_file s =
     (case files s pot_file of
        None \<Rightarrow> (Inr [], s)
      | Some content \<Rightarrow>
          (case open_text e pot_file content of
             OpenError msg \<Rightarrow> (Inl (OSError msg), s)
           | DecodeError before \<Rightarrow>
               (case parse_pot_lines (file_lines before) [] of
                  Inl err \<Rightarrow> (Inl err, s)
                | Inr result \<Rightarrow>
                    (Inl (UnicodeDecodeError ''codec cannot decode the bytes of the file''), s))
           | Decoded text \<Rightarrow>
               (case parse_pot_lines (file_lines text) [] of
                  Inl err \<Rightarrow> (Inl err, s)
                | Inr result \<Rightarrow>
                    (case remove_error e pot_file of
                       Some msg \<Rightarrow> (Inl (OSError msg), s)
                     | None \<Rightarrow> (Inr result, s\<lparr>files := (files s)(pot_file := None)\<rparr>)))))"

text \<open>
  \<^verbatim>\<open>bruteforce_password_hashes(password_hashes, tmp_dir, timeout, extra_args)\<close>, lines 176
  to 254. The child is started with \<^verbatim>\<open>Popen\<close> and waited for; a timer terminates it after
  \<^verbatim>\<open>timeout\<close> seconds. Whether the timer fired is not looked at, nor is the exit status.
  An \<^verbatim>\<open>OSError\<close> of the start is raised again as \<^verbatim>\<open>TurbiniaException\<close>.
\<close>

definition bruteforce_password_hashes ::
  "env \<Rightarrow> string list \<Rightarrow> string \<Rightarrow> int \<Rightarrow> string \<Rightarrow> os_state
     \<Rightarrow> (error + (string \<times> string) list) \<times> os_state"
where
  "bruteforce_password_hashes e password_hashes tmp_dir timeout extra_args s =
     (case crack_command e password_hashes tmp_dir extra_args s of
        (Inl err, s1) \<Rightarrow> (Inl err, s1)
      | (Inr (cmd, pot_file), s1) \<Rightarrow>
          (case popen e cmd timeout s1 of
             (PopenOSError msg, s2) \<Rightarrow>
               (Inl (TurbiniaException (join '' '' cmd @ '' failed: '' @ msg)),
                record_call (Popen cmd timeout) s1 s1)
           | (Ran timed_out, s2) \<Rightarrow>
               read_results e pot_file (record_call (Popen cmd timeout) s1 s2)))"

subsection \<open>The job's container image, and example environments\<close>

text \<open>
  The docker image of the dependency entry of the job, \<^verbatim>\<open>None\<close> when the job has no entry
  or the entry has none. \<open>docker_image_lookup\<close> below shows that this is the value
  \<^verbatim>\<open>_image_export\<close> computes in lines 52 to 55.
\<close>

definition job_docker_image :: "env \<Rightarrow> pyval" where
  "job_docker_image e =
     (case dependencies e ''fileartifactextractionjob'' of
        None \<Rightarrow> PNone
      | Some d \<Rightarrow> dict_get d ''docker_image'')"

text \<open>
  Following the specification's words for the extra arguments of the cracker, ``split on
  whitespace'': the maximal runs of characters that are not whitespace, as \<^verbatim>\<open>s.split()\<close>
  gives them. It is compared below with what the code does, \<^verbatim>\<open>s.split(' ')\<close>.
\<close>

fun whitespace_tokens_from :: "string \<Rightarrow> string \<Rightarrow> string list" where
  "whitespace_tokens_from token [] = (if token = [] then [] else [token])"
| "whitespace_tokens_from token (c # cs) =
     (if is_space c then
        (if token = [] then whitespace_tokens_from [] cs
         else token # whitespace_tokens_from [] cs)
      else whitespace_tokens_from (token @ [c]) cs)"

definition spec_whitespace_tokens :: "string \<Rightarrow> string list" where
  "spec_whitespace_tokens s = whitespace_tokens_from [] s"

text \<open>
  Following the specification's words for the error of a timeout, ``carrying the
  configured timeout value'': the value is read back from the message, as the integer
  that the decimal numeral after \<^verbatim>\<open>image_export.py timed out after\<close> and before the \<^verbatim>\<open>s\<close>
  denotes. It is compared below with the timeout the function was called with.
\<close>

definition digit_value :: "char \<Rightarrow> nat" where
  "digit_value c = of_char c - 48"

definition decimal_nat :: "string \<Rightarrow> nat" where
  "decimal_nat s = foldl (\<lambda>n c. 10 * n + digit_value c) 0 s"

definition decimal_int :: "string \<Rightarrow> int" where
  "decimal_int s =
     (case s of
        [] \<Rightarrow> 0
      | c # cs \<Rightarrow> if c = CHR ''-'' then - int (decimal_nat cs) else int (decimal_nat s))"

definition timeout_of_message :: "string \<Rightarrow> int" where
  "timeout_of_message message =
     decimal_int (takeWhile (\<lambda>c. c \<noteq> CHR ''s'')
                    (drop (length ''image_export.py timed out after '') message))"

text \<open>
  An environment and a state to evaluate the functions in: the job has a docker image and
  a timeout of its own, docker is disabled, \<^verbatim>\<open>image_export.py\<close> exits with status 0 and
  leaves two files under \<^verbatim>\<open>/out\<close>, the cracker ends in time and leaves two lines in
  \<^verbatim>\<open>/tmp/hashcat.pot\<close>, the second with a blank plaintext; the user has a password list;
  files are read in ASCII and can be removed.
\<close>

definition demo_walk :: "string \<Rightarrow> (string \<times> string list \<times> string list) list" where
  "demo_walk dir =
     (if dir = ''/out'' then [(''/out'', [''d''], [''a.txt'']), (''/out/d'', [], [''b.txt''])]
      else [])"

definition demo_state :: os_state where
  "demo_state =
     \<lparr>files = [''/home/u/password.lst'' \<mapsto> ''123456''],
      walk = (\<lambda>dir. []), invoked = [], temp_count = 0\<rparr>"

definition cracker_leaving ::
  "bool \<Rightarrow> string \<Rightarrow> string list \<Rightarrow> int \<Rightarrow> os_state \<Rightarrow> popen_outcome \<times> os_state"
where
  "cracker_leaving timed_out content cmd timeout s =
     (Ran timed_out, s\<lparr>files := (files s)(''/tmp/hashcat.pot'' \<mapsto> content)\<rparr>)"

definition ascii_text :: "string \<Rightarrow> string \<Rightarrow> text_read" where
  \<comment> \<open>reading in the encoding ASCII: a byte of 128 or more does not decode\<close>
  "ascii_text path content =
     (if list_all (\<lambda>c. (of_char c :: nat) < 128) content then Decoded content
      else DecodeError [])"

definition demo_env :: env where
  "demo_env =
     \<lparr>DOCKER_ENABLED = False,
      dependencies = [''fileartifactextractionjob'' \<mapsto>
                        [(''docker_image'', PStr ''log2timeline/plaso''), (''timeout'', PInt 60)]],
      home = ''/home/u'',
      gettempdir = ''/tmp'',
      temp_name = (\<lambda>n. ''/tmp/tmp'' @ digits n),
      check_call = (\<lambda>command timeout s. (Completed, s\<lparr>walk := demo_walk\<rparr>)),
      execute_container = (\<lambda>image command ro rw timeout s.
                             (ContainerReturned [] [] 0, s\<lparr>walk := demo_walk\<rparr>)),
      popen = cracker_leaving False (''abc:pass:word'' @ [CHR 0x0A] @ ''def: '' @ [CHR 0x0A]),
      open_text = ascii_text,
      remove_error = (\<lambda>path. None)\<rparr>"

text \<open>
  The state after the cracker of the example ran and left \<open>content\<close> in its result store:
  the two temporary files, the result store, and the one tool started.
\<close>

definition demo_run_state :: "string \<Rightarrow> os_state" where
  "demo_run_state content =
     demo_state\<lparr>files := (files demo_state)
                   (''/tmp/tmp0'' \<mapsto> ''5f4dcc3b5aa765d61d8327deb882cf99'',
                    ''/tmp/tmp1'' \<mapsto> '':'' @ [CHR 0x0A] @ ''d'',
                    ''/tmp/hashcat.pot'' \<mapsto> content),
                 temp_count := 2,
                 invoked := [Popen [''hashcat'', ''--force'', ''-a'', ''0'',
                                    ''--potfile-path=/tmp/hashcat.pot'', ''/tmp/tmp0'',
                                    ''/home/u/password.lst'', ''-r'', ''/tmp/tmp1''] 300]\<rparr>"

section \<open>Properties\<close>

subsection \<open>Auxiliary facts\<close>

lemma job_name_eq: "job_name = ''fileartifactextractionjob''"
  by code_simp

lemma foldl_credentials:
  "foldl (\<lambda>cmd (credential_type, credential_data).
            cmd @ [''--credential'', credential_type @ '':'' @ credential_data]) cmd credentials =
   cmd @ concat (map (\<lambda>(t, d). [''--credential'', t @ '':'' @ d]) credentials)"
  by (induction credentials arbitrary: cmd) (auto split: prod.splits)

lemma extend_credentials_eq:
  "extend_credentials cmd credentials =
   cmd @ concat (map (\<lambda>(t, d). [''--credential'', t @ '':'' @ d]) credentials)"
  unfolding extend_credentials_def foldl_credentials by simp

lemma foldl_filenames:
  "foldl (\<lambda>acc filename. acc @ [os_path_join dirpath filename]) acc filenames =
   acc @ map (os_path_join dirpath) filenames"
  by (induction filenames arbitrary: acc) auto

lemma foldl_triples:
  "foldl (\<lambda>collected (dirpath, _, filenames).
            foldl (\<lambda>acc filename. acc @ [os_path_join dirpath filename]) collected filenames)
         acc triples =
   acc @ concat (map (\<lambda>(dirpath, dirnames, filenames). map (os_path_join dirpath) filenames) triples)"
  by (induction triples arbitrary: acc) (auto simp: foldl_filenames split: prod.splits)

lemma collect_file_paths_eq:
  "collect_file_paths triples =
   concat (map (\<lambda>(dirpath, dirnames, filenames). map (os_path_join dirpath) filenames) triples)"
  unfolding collect_file_paths_def foldl_triples by simp

lemma docker_image_lookup:
  "(case dependencies e job_name of
      None \<Rightarrow> PNone
    | Some d \<Rightarrow> if d \<noteq> [] then dict_get d ''docker_image'' else PNone) = job_docker_image e"
  by (auto simp: job_name_eq job_docker_image_def dict_get_def split: option.splits)

lemma image_export_container:
  assumes "DOCKER_ENABLED e" and "job_docker_image e \<noteq> PNone"
  shows "image_export e command output_dir disk_path timeout s =
           (Inl (TypeError ''unsupported format string passed to list.__format__''), s)"
  using assms unfolding image_export_def docker_image_lookup by simp

lemma image_export_local:
  assumes "\<not> (DOCKER_ENABLED e \<and> job_docker_image e \<noteq> PNone)"
  shows "image_export e command output_dir disk_path timeout s =
     (case check_call e (''sudo'' # command) timeout s of
        (outcome, s') \<Rightarrow>
          ((case outcome of
              Completed \<Rightarrow> Inr (collect_file_paths (walk s' output_dir))
            | CalledProcessError msg \<Rightarrow>
                Inl (TurbiniaException (''image_export.py failed: '' @ msg))
            | TimeoutExpired msg \<Rightarrow>
                Inl (TurbiniaException
                       (''image_export.py timed out after '' @ format_d timeout @ ''s: '' @ msg))
            | CheckOSError msg \<Rightarrow> Inl (OSError msg)),
           record_call (CheckCall (''sudo'' # command) timeout) s s'))"
  using assms unfolding image_export_def docker_image_lookup
  by (auto simp: Let_def split: prod.splits check_outcome.splits)

lemma format_d_7200: "format_d 7200 = ''7200''"
  by (simp add: format_d_def digits.simps)

lemma digits_0: "digits 0 = ''0''"
  by (simp add: digits.simps)

lemma digits_1: "digits (Suc 0) = ''1''"
  by (simp add: digits.simps)

lemma format_d_30: "format_d 30 = ''30''"
  by (simp add: format_d_def digits.simps)

text \<open>
  The decimal numeral of an integer has digits only, after the sign, and denotes the
  integer: the rendering loses nothing.
\<close>

lemma digit_cases:
  assumes "n < 10"
  shows "n \<in> {0, 1, 2, 3, 4, 5, 6, 7, 8, 9 :: nat}"
proof -
  from assms have "n \<in> {..<10}"
    by simp
  also have "{..<10} = {0, 1, 2, 3, 4, 5, 6, 7, 8, 9 :: nat}"
    by (simp add: numeral_eq_Suc lessThan_Suc) auto
  finally show ?thesis .
qed

lemma digit_value_nth:
  assumes "n < 10"
  shows "digit_value (''0123456789'' ! n) = n"
  using digit_cases [OF assms] by (auto simp: digit_value_def)

lemma digit_in_set:
  assumes "n < 10"
  shows "''0123456789'' ! n \<in> set ''0123456789''"
  using assms by (intro nth_mem) simp

lemma digits_set: "set (digits n) \<subseteq> set ''0123456789''"
proof (induction n rule: digits.induct)
  case (1 n)
  show ?case
  proof (cases "n < 10")
    case True
    then show ?thesis
      using digit_in_set [OF True] by (subst digits.simps) simp
  next
    case False
    have "n mod 10 < 10"
      by simp
    from digit_in_set [OF this] 1 [OF False] False show ?thesis
      by (subst digits.simps) simp
  qed
qed

lemma digits_not_empty: "digits n \<noteq> []"
  by (subst digits.simps) simp

lemma decimal_nat_snoc: "decimal_nat (xs @ [c]) = 10 * decimal_nat xs + digit_value c"
  by (simp add: decimal_nat_def)

lemma decimal_nat_digits: "decimal_nat (digits n) = n"
proof (induction n rule: digits.induct)
  case (1 n)
  show ?case
  proof (cases "n < 10")
    case True
    then show ?thesis
      using digit_value_nth [OF True] by (subst digits.simps) (simp add: decimal_nat_def)
  next
    case False
    have "n mod 10 < 10"
      by simp
    from digit_value_nth [OF this] 1 [OF False] False show ?thesis
      by (subst digits.simps) (simp add: decimal_nat_snoc)
  qed
qed

lemma digits_no_letter:
  assumes "c \<notin> set ''0123456789''"
  shows "c \<notin> set (digits n)"
  using assms digits_set [of n] by blast

lemma decimal_int_format_d: "decimal_int (format_d i) = i"
proof (cases "i < 0")
  case True
  then show ?thesis
    by (simp add: format_d_def decimal_int_def decimal_nat_digits)
next
  case False
  obtain c cs where d: "digits (nat i) = c # cs"
    using digits_not_empty [of "nat i"] by (cases "digits (nat i)") auto
  have "CHR ''-'' \<notin> set (digits (nat i))"
    by (rule digits_no_letter) simp
  with d have "c \<noteq> CHR ''-''"
    by auto
  with False d decimal_nat_digits [of "nat i"] show ?thesis
    by (simp add: format_d_def decimal_int_def)
qed

lemma format_d_no_s: "CHR ''s'' \<notin> set (format_d i)"
proof -
  have "CHR ''s'' \<notin> set (digits n)" for n
    by (rule digits_no_letter) simp
  then show ?thesis
    by (simp add: format_d_def)
qed

lemma timeout_of_message_eq:
  "timeout_of_message (''image_export.py timed out after '' @ format_d timeout @ ''s: '' @ msg) =
     timeout"
proof -
  have "takeWhile (\<lambda>c. c \<noteq> CHR ''s'') (format_d timeout @ ''s: '' @ msg) =
      format_d timeout @ takeWhile (\<lambda>c. c \<noteq> CHR ''s'') (''s: '' @ msg)"
  proof (rule takeWhile_append2)
    fix x
    assume "x \<in> set (format_d timeout)"
    with format_d_no_s [of timeout] show "x \<noteq> CHR ''s''"
      by auto
  qed
  then have "takeWhile (\<lambda>c. c \<noteq> CHR ''s'') (format_d timeout @ ''s: '' @ msg) =
      format_d timeout"
    by simp
  then show ?thesis
    by (simp add: timeout_of_message_def decimal_int_format_d)
qed

subsection \<open>The command line of \<^verbatim>\<open>image_export.py\<close>\<close>

text \<open>
  Claim C1. For all artifact names, output directory, credentials and disk path,
  \<^verbatim>\<open>extract_artifacts\<close> builds the list \<^verbatim>\<open>image_export.py --artifact_filters\<close>, the names
  joined with commas, \<^verbatim>\<open>--write\<close>, the output directory, \<^verbatim>\<open>--partitions all --volumes all
  --unattended\<close>, then \<^verbatim>\<open>--credential\<close> and \<^verbatim>\<open>type:data\<close> for each credential in order, then
  the disk path, and runs \<^verbatim>\<open>_image_export\<close> on it with the default timeout of 7200 seconds.
  \<^verbatim>\<open>extract_files\<close>, when it builds a command (the disk path is not empty, see C6), builds
  the same list with \<^verbatim>\<open>--name\<close> and the file name in place of the artifact filter and
  without \<^verbatim>\<open>--unattended\<close>.
\<close>

theorem extract_commands:
  "extract_artifacts_cmd artifact_names disk_path output_dir credentials =
     [''image_export.py'', ''--artifact_filters'', join '','' artifact_names, ''--write'',
      output_dir, ''--partitions'', ''all'', ''--volumes'', ''all'', ''--unattended'']
     @ concat (map (\<lambda>(t, d). [''--credential'', t @ '':'' @ d]) credentials)
     @ [disk_path]
   \<and> extract_artifacts e artifact_names disk_path output_dir credentials s =
       image_export e (extract_artifacts_cmd artifact_names disk_path output_dir credentials)
         output_dir disk_path 7200 s
   \<and> extract_files_cmd file_name disk_path output_dir credentials =
       [''image_export.py'', ''--name'', file_name, ''--write'', output_dir,
        ''--partitions'', ''all'', ''--volumes'', ''all'']
       @ concat (map (\<lambda>(t, d). [''--credential'', t @ '':'' @ d]) credentials)
       @ [disk_path]
   \<and> (disk_path \<noteq> [] \<longrightarrow>
        extract_files e file_name disk_path output_dir credentials s =
        image_export e (extract_files_cmd file_name disk_path output_dir credentials)
          output_dir disk_path 7200 s)"
  by (simp add: extract_artifacts_def extract_artifacts_cmd_def extract_files_def
      extract_files_cmd_def extend_credentials_eq DEFAULT_TIMEOUT_def)

theorem extract_commands_witness:
  "extract_artifacts demo_env [''WindowsEventLogs'', ''SshdConfigFile''] ''/dev/sdb1'' ''/out''
     [(''password'', ''hunter2''), (''recovery_password'', ''1234'')] demo_state =
     image_export demo_env
       [''image_export.py'', ''--artifact_filters'', ''WindowsEventLogs,SshdConfigFile'',
        ''--write'', ''/out'', ''--partitions'', ''all'', ''--volumes'', ''all'', ''--unattended'',
        ''--credential'', ''password:hunter2'', ''--credential'', ''recovery_password:1234'',
        ''/dev/sdb1'']
       ''/out'' ''/dev/sdb1'' 7200 demo_state
   \<and> extract_files demo_env ''passwd'' ''/dev/sdb1'' ''/out'' [(''password'', ''hunter2'')]
       demo_state =
       image_export demo_env
         [''image_export.py'', ''--name'', ''passwd'', ''--write'', ''/out'', ''--partitions'',
          ''all'', ''--volumes'', ''all'', ''--credential'', ''password:hunter2'', ''/dev/sdb1'']
         ''/out'' ''/dev/sdb1'' 7200 demo_state"
proof -
  note t = extract_commands [of "[''WindowsEventLogs'', ''SshdConfigFile'']" "''/dev/sdb1''"
      "''/out''" "[(''password'', ''hunter2''), (''recovery_password'', ''1234'')]" demo_env
      demo_state "''passwd''"]
  note u = extract_commands [of "[]" "''/dev/sdb1''" "''/out''" "[(''password'', ''hunter2'')]"
      demo_env demo_state "''passwd''"]
  have nonempty: "''/dev/sdb1'' \<noteq> []"
    by simp
  from t have a: "extract_artifacts_cmd [''WindowsEventLogs'', ''SshdConfigFile''] ''/dev/sdb1''
      ''/out'' [(''password'', ''hunter2''), (''recovery_password'', ''1234'')] =
     [''image_export.py'', ''--artifact_filters'', ''WindowsEventLogs,SshdConfigFile'',
      ''--write'', ''/out'', ''--partitions'', ''all'', ''--volumes'', ''all'', ''--unattended'',
      ''--credential'', ''password:hunter2'', ''--credential'', ''recovery_password:1234'',
      ''/dev/sdb1'']"
    by simp
  from t have b: "extract_artifacts demo_env [''WindowsEventLogs'', ''SshdConfigFile'']
      ''/dev/sdb1'' ''/out'' [(''password'', ''hunter2''), (''recovery_password'', ''1234'')]
      demo_state =
     image_export demo_env
       (extract_artifacts_cmd [''WindowsEventLogs'', ''SshdConfigFile''] ''/dev/sdb1'' ''/out''
          [(''password'', ''hunter2''), (''recovery_password'', ''1234'')])
       ''/out'' ''/dev/sdb1'' 7200 demo_state"
    by blast
  from u have c: "extract_files_cmd ''passwd'' ''/dev/sdb1'' ''/out'' [(''password'', ''hunter2'')] =
     [''image_export.py'', ''--name'', ''passwd'', ''--write'', ''/out'', ''--partitions'',
      ''all'', ''--volumes'', ''all'', ''--credential'', ''password:hunter2'', ''/dev/sdb1'']"
    by simp
  from u nonempty have d: "extract_files demo_env ''passwd'' ''/dev/sdb1'' ''/out''
      [(''password'', ''hunter2'')] demo_state =
     image_export demo_env
       (extract_files_cmd ''passwd'' ''/dev/sdb1'' ''/out'' [(''password'', ''hunter2'')])
       ''/out'' ''/dev/sdb1'' 7200 demo_state"
    by blast
  show ?thesis
    unfolding b d a c by simp
qed

text \<open>
  Claim C6. With an empty disk path \<^verbatim>\<open>extract_files\<close> raises \<^verbatim>\<open>TurbiniaException\<close> with the
  message of a missing local path, whatever the other arguments are, and leaves the state
  as it found it: no command is built and no process is started.
\<close>

theorem extract_files_empty_disk_path:
  "extract_files e file_name [] output_dir credentials s =
     (Inl (TurbiniaException ''image_export.py failed: Attempted to run with no local_path''), s)"
  by (simp add: extract_files_def)

text \<open>
  Claim C10. \<^verbatim>\<open>extract_artifacts\<close> does not check the disk path: for every disk path, the
  empty one included, it builds the command, which ends with the disk path, and enters
  \<^verbatim>\<open>_image_export\<close> with it; on the local path the tool is started with that command. Only
  \<^verbatim>\<open>extract_files\<close> stops at an empty disk path.
\<close>

theorem extract_artifacts_any_disk_path:
  "extract_artifacts e artifact_names disk_path output_dir credentials s =
     image_export e (extract_artifacts_cmd artifact_names disk_path output_dir credentials)
       output_dir disk_path DEFAULT_TIMEOUT s
   \<and> last (extract_artifacts_cmd artifact_names disk_path output_dir credentials) = disk_path
   \<and> (\<not> (DOCKER_ENABLED e \<and> job_docker_image e \<noteq> PNone) \<longrightarrow>
        invoked (snd (extract_artifacts e artifact_names disk_path output_dir credentials s)) =
        invoked s @
          [CheckCall (''sudo'' # extract_artifacts_cmd artifact_names disk_path output_dir
                                  credentials) DEFAULT_TIMEOUT])
   \<and> extract_files e file_name [] output_dir credentials s =
       (Inl (TurbiniaException ''image_export.py failed: Attempted to run with no local_path''),
        s)"
  by (auto simp: extract_artifacts_def extract_artifacts_cmd_def extract_files_def
      image_export_local record_call_def split: prod.splits)

theorem extract_artifacts_any_disk_path_witness:
  "invoked (snd (extract_artifacts demo_env [''SshdConfigFile''] [] ''/out'' [] demo_state)) =
     [CheckCall [''sudo'', ''image_export.py'', ''--artifact_filters'', ''SshdConfigFile'',
                 ''--write'', ''/out'', ''--partitions'', ''all'', ''--volumes'', ''all'',
                 ''--unattended'', []] 7200]
   \<and> fst (extract_artifacts demo_env [''SshdConfigFile''] [] ''/out'' [] demo_state) =
       Inr [''/out/a.txt'', ''/out/d/b.txt'']
   \<and> fst (extract_files demo_env ''passwd'' [] ''/out'' [] demo_state) =
       Inl (TurbiniaException ''image_export.py failed: Attempted to run with no local_path'')"
proof -
  have local: "\<not> (DOCKER_ENABLED demo_env \<and> job_docker_image demo_env \<noteq> PNone)"
    by (simp add: demo_env_def)
  have cmd: "extract_artifacts_cmd [''SshdConfigFile''] [] ''/out'' [] =
     [''image_export.py'', ''--artifact_filters'', ''SshdConfigFile'',
                 ''--write'', ''/out'', ''--partitions'', ''all'', ''--volumes'', ''all'',
                 ''--unattended'', []]"
    by (simp add: extract_artifacts_cmd_def extend_credentials_def)
  have walk: "collect_file_paths (demo_walk ''/out'') = [''/out/a.txt'', ''/out/d/b.txt'']"
    by (simp add: collect_file_paths_def demo_walk_def os_path_join_def)
  have run: "fst (image_export demo_env
       [''image_export.py'', ''--artifact_filters'', ''SshdConfigFile'',
                 ''--write'', ''/out'', ''--partitions'', ''all'', ''--volumes'', ''all'',
                 ''--unattended'', []] ''/out'' [] 7200 demo_state) = Inr [''/out/a.txt'', ''/out/d/b.txt'']"
    unfolding image_export_local [OF local]
    by (simp add: demo_env_def record_call_def walk)
  note t = extract_artifacts_any_disk_path
      [of demo_env "[''SshdConfigFile'']" "[]" "''/out''" "[]" demo_state "''passwd''"]
  from t have a: "extract_artifacts demo_env [''SshdConfigFile''] [] ''/out'' [] demo_state =
     image_export demo_env (extract_artifacts_cmd [''SshdConfigFile''] [] ''/out'' [])
       ''/out'' [] DEFAULT_TIMEOUT demo_state"
    by blast
  from t local have b:
    "invoked (snd (extract_artifacts demo_env [''SshdConfigFile''] [] ''/out'' [] demo_state)) =
     invoked demo_state @
       [CheckCall (''sudo'' # extract_artifacts_cmd [''SshdConfigFile''] [] ''/out'' [])
          DEFAULT_TIMEOUT]"
    by blast
  from t have c: "extract_files demo_env ''passwd'' [] ''/out'' [] demo_state =
     (Inl (TurbiniaException ''image_export.py failed: Attempted to run with no local_path''),
      demo_state)"
    by blast
  have d: "invoked demo_state = []"
    by (simp add: demo_state_def)
  have a': "fst (extract_artifacts demo_env [''SshdConfigFile''] [] ''/out'' [] demo_state) =
     Inr [''/out/a.txt'', ''/out/d/b.txt'']"
    by (simp add: a cmd run DEFAULT_TIMEOUT_def)
  show ?thesis
    by (simp add: a' b c d cmd DEFAULT_TIMEOUT_def)
qed

subsection \<open>Running the extraction\<close>

text \<open>
  Claim C4. Containerized execution is chosen if and only if docker is enabled and the job
  has a docker image, and then runs with the timeout of the job, or the caller's when the
  job has none. The code takes the container branch under exactly this condition
  (\<open>docker_image_lookup\<close>) and the local branch otherwise (\<open>image_export_local\<close>: \<^verbatim>\<open>sudo\<close>
  in front, the caller's timeout). But in the container branch the log message is
  formatted first, with the command, a list, under \<^verbatim>\<open>{0:s}\<close>: this raises \<^verbatim>\<open>TypeError\<close>,
  and the container is never started (\<open>image_export_container\<close>). Evaluated with docker
  enabled, an image and a timeout of 60 seconds for the job: the result is the
  \<^verbatim>\<open>TypeError\<close>, the state is unchanged, and nothing has been started.
\<close>

theorem containerized_run_raises:
  "DOCKER_ENABLED (demo_env\<lparr>DOCKER_ENABLED := True\<rparr>)
   \<and> job_docker_image (demo_env\<lparr>DOCKER_ENABLED := True\<rparr>) = PStr ''log2timeline/plaso''
   \<and> image_export (demo_env\<lparr>DOCKER_ENABLED := True\<rparr>)
       [''image_export.py'', ''--name'', ''passwd'', ''--write'', ''/out'', ''--partitions'',
        ''all'', ''--volumes'', ''all'', ''/dev/sdb1'']
       ''/out'' ''/dev/sdb1'' 7200 demo_state =
     (Inl (TypeError ''unsupported format string passed to list.__format__''), demo_state)
   \<and> invoked demo_state = []"
proof -
  have img: "job_docker_image (demo_env\<lparr>DOCKER_ENABLED := True\<rparr>) = PStr ''log2timeline/plaso''"
    by (simp add: demo_env_def job_docker_image_def dict_get_def)
  have en: "DOCKER_ENABLED (demo_env\<lparr>DOCKER_ENABLED := True\<rparr>)"
    by simp
  show ?thesis
    using image_export_container [OF en, of _ "''/out''" "''/dev/sdb1''" 7200 demo_state]
    by (simp add: img demo_state_def)
qed

text \<open>
  Claim C5. On the local path, a non-zero exit status of the tool gives a
  \<^verbatim>\<open>TurbiniaException\<close> whose message is \<^verbatim>\<open>image_export.py failed:\<close> and the message of the
  underlying exception, and a timeout gives a \<^verbatim>\<open>TurbiniaException\<close> whose message is
  \<^verbatim>\<open>image_export.py timed out after\<close>, the timeout in seconds as a decimal numeral, and the
  message of the underlying exception: the timeout the function was called with is read
  back from the message of the exception, whatever it is. Both are the one exception type
  of the module, and the two are never equal, whatever the underlying messages and the
  timeout are.
\<close>

theorem local_failure_errors:
  assumes "\<not> (DOCKER_ENABLED e \<and> job_docker_image e \<noteq> PNone)"
  shows
    "(fst (check_call e (''sudo'' # command) timeout s) = CalledProcessError msg \<longrightarrow>
        fst (image_export e command output_dir disk_path timeout s) =
        Inl (TurbiniaException (''image_export.py failed: '' @ msg)))
   \<and> (fst (check_call e (''sudo'' # command) timeout s) = TimeoutExpired msg \<longrightarrow>
        fst (image_export e command output_dir disk_path timeout s) =
        Inl (TurbiniaException
               (''image_export.py timed out after '' @ format_d timeout @ ''s: '' @ msg))
        \<and> (\<forall>message. fst (image_export e command output_dir disk_path timeout s) =
                         Inl (TurbiniaException message) \<longrightarrow>
                       timeout_of_message message = timeout))
   \<and> TurbiniaException (''image_export.py failed: '' @ msg1) \<noteq>
       TurbiniaException (''image_export.py timed out after '' @ format_d timeout @ ''s: '' @ msg2)"
proof (intro conjI impI allI)
  assume "fst (check_call e (''sudo'' # command) timeout s) = CalledProcessError msg"
  then show "fst (image_export e command output_dir disk_path timeout s) =
        Inl (TurbiniaException (''image_export.py failed: '' @ msg))"
    unfolding image_export_local [OF assms] by (auto split: prod.splits)
next
  assume t: "fst (check_call e (''sudo'' # command) timeout s) = TimeoutExpired msg"
  then show r: "fst (image_export e command output_dir disk_path timeout s) =
        Inl (TurbiniaException
               (''image_export.py timed out after '' @ format_d timeout @ ''s: '' @ msg))"
    unfolding image_export_local [OF assms] by (auto split: prod.splits)
  fix message
  assume "fst (image_export e command output_dir disk_path timeout s) =
            Inl (TurbiniaException message)"
  with r have "message = ''image_export.py timed out after '' @ format_d timeout @ ''s: '' @ msg"
    by simp
  then show "timeout_of_message message = timeout"
    by (simp only: timeout_of_message_eq)
next
  show "TurbiniaException (''image_export.py failed: '' @ msg1) \<noteq>
       TurbiniaException (''image_export.py timed out after '' @ format_d timeout @ ''s: '' @ msg2)"
    by simp
qed

theorem local_failure_errors_witness:
  "fst (image_export
         (demo_env\<lparr>check_call := (\<lambda>command timeout s.
            (CalledProcessError ''Command returned non-zero exit status 2.'', s))\<rparr>)
         [''image_export.py'', ''/dev/sdb1''] ''/out'' ''/dev/sdb1'' 7200 demo_state) =
     Inl (TurbiniaException ''image_export.py failed: Command returned non-zero exit status 2.'')
   \<and> fst (image_export
         (demo_env\<lparr>check_call := (\<lambda>command timeout s.
            (TimeoutExpired ''Command timed out after 7200 seconds'', s))\<rparr>)
         [''image_export.py'', ''/dev/sdb1''] ''/out'' ''/dev/sdb1'' 7200 demo_state) =
     Inl (TurbiniaException
            ''image_export.py timed out after 7200s: Command timed out after 7200 seconds'')
   \<and> fst (image_export
         (demo_env\<lparr>check_call := (\<lambda>command timeout s.
            (TimeoutExpired ''Command timed out after 30 seconds'', s))\<rparr>)
         [''image_export.py'', ''/dev/sdb1''] ''/out'' ''/dev/sdb1'' 30 demo_state) =
     Inl (TurbiniaException
            ''image_export.py timed out after 30s: Command timed out after 30 seconds'')
   \<and> timeout_of_message
         ''image_export.py timed out after 7200s: Command timed out after 7200 seconds'' = 7200
   \<and> timeout_of_message
         ''image_export.py timed out after 30s: Command timed out after 30 seconds'' = 30"
proof -
  let ?cmd = "[''image_export.py'', ''/dev/sdb1'']"
  let ?failing = "demo_env\<lparr>check_call := (\<lambda>command timeout s.
            (CalledProcessError ''Command returned non-zero exit status 2.'', s))\<rparr>"
  let ?slow = "demo_env\<lparr>check_call := (\<lambda>command timeout s.
            (TimeoutExpired ''Command timed out after 7200 seconds'', s))\<rparr>"
  let ?slow30 = "demo_env\<lparr>check_call := (\<lambda>command timeout s.
            (TimeoutExpired ''Command timed out after 30 seconds'', s))\<rparr>"
  have l1: "\<not> (DOCKER_ENABLED ?failing \<and> job_docker_image ?failing \<noteq> PNone)"
    by (simp add: demo_env_def)
  have l2: "\<not> (DOCKER_ENABLED ?slow \<and> job_docker_image ?slow \<noteq> PNone)"
    by (simp add: demo_env_def)
  have l3: "\<not> (DOCKER_ENABLED ?slow30 \<and> job_docker_image ?slow30 \<noteq> PNone)"
    by (simp add: demo_env_def)
  note f = local_failure_errors [OF l1, of ?cmd 7200 demo_state
      "''Command returned non-zero exit status 2.''" "''/out''" "''/dev/sdb1''"]
  note t = local_failure_errors [OF l2, of ?cmd 7200 demo_state
      "''Command timed out after 7200 seconds''" "''/out''" "''/dev/sdb1''"]
  note u = local_failure_errors [OF l3, of ?cmd 30 demo_state
      "''Command timed out after 30 seconds''" "''/out''" "''/dev/sdb1''"]
  from f have a: "fst (image_export ?failing ?cmd ''/out'' ''/dev/sdb1'' 7200 demo_state) =
     Inl (TurbiniaException ''image_export.py failed: Command returned non-zero exit status 2.'')"
    by simp
  from t have b: "fst (image_export ?slow ?cmd ''/out'' ''/dev/sdb1'' 7200 demo_state) =
     Inl (TurbiniaException
            ''image_export.py timed out after 7200s: Command timed out after 7200 seconds'')"
    by (simp add: format_d_7200)
  from u have c: "fst (image_export ?slow30 ?cmd ''/out'' ''/dev/sdb1'' 30 demo_state) =
     Inl (TurbiniaException
            ''image_export.py timed out after 30s: Command timed out after 30 seconds'')"
    by (simp add: format_d_30)
  from t b have d: "timeout_of_message
         ''image_export.py timed out after 7200s: Command timed out after 7200 seconds'' = 7200"
    by simp
  from u c have e: "timeout_of_message
         ''image_export.py timed out after 30s: Command timed out after 30 seconds'' = 30"
    by simp
  from a b c d e show ?thesis
    by blast
qed

text \<open>
  Claim C8. Whenever \<^verbatim>\<open>_image_export\<close> returns a list, the list is exactly the file paths
  of the walk of the output directory in the state the tool left (every file name of every
  triple, joined to its directory), and the tool had exited with status 0; nothing else
  enters the result. Whenever the tool does not exit with status 0 the result is an
  exception, and no list. Containerized runs never come to an end (see C4): their result
  is an exception too.
\<close>

theorem extraction_result:
  assumes "image_export e command output_dir disk_path timeout s = (r, s')"
  shows
    "(\<forall>paths. r = Inr paths \<longrightarrow>
        paths = concat (map (\<lambda>(dirpath, dirnames, filenames).
                               map (os_path_join dirpath) filenames) (walk s' output_dir))
        \<and> walk s' = walk (snd (check_call e (''sudo'' # command) timeout s))
        \<and> fst (check_call e (''sudo'' # command) timeout s) = Completed)
   \<and> (fst (check_call e (''sudo'' # command) timeout s) \<noteq> Completed \<longrightarrow> (\<exists>err. r = Inl err))
   \<and> (DOCKER_ENABLED e \<and> job_docker_image e \<noteq> PNone \<longrightarrow> (\<exists>err. r = Inl err))"
proof (cases "DOCKER_ENABLED e \<and> job_docker_image e \<noteq> PNone")
  case True
  with assms show ?thesis
    by (auto simp: image_export_container)
next
  case False
  from assms False show ?thesis
    unfolding image_export_local [OF False]
    by (auto simp: record_call_def collect_file_paths_eq
        split: prod.splits check_outcome.splits)
qed

theorem extraction_result_witness:
  "image_export demo_env [''image_export.py'', ''/dev/sdb1''] ''/out'' ''/dev/sdb1'' 7200
     demo_state =
     (Inr [''/out/a.txt'', ''/out/d/b.txt''],
      demo_state\<lparr>walk := demo_walk,
                  invoked := [CheckCall [''sudo'', ''image_export.py'', ''/dev/sdb1''] 7200]\<rparr>)
   \<and> (\<exists>err. fst (image_export
         (demo_env\<lparr>check_call := (\<lambda>command timeout s.
            (CalledProcessError ''Command returned non-zero exit status 2.'',
             s\<lparr>walk := demo_walk\<rparr>))\<rparr>)
         [''image_export.py'', ''/dev/sdb1''] ''/out'' ''/dev/sdb1'' 7200 demo_state) = Inl err)
   \<and> (\<exists>err. fst (image_export (demo_env\<lparr>DOCKER_ENABLED := True\<rparr>)
         [''image_export.py'', ''/dev/sdb1''] ''/out'' ''/dev/sdb1'' 7200 demo_state) = Inl err)"
proof -
  let ?cmd = "[''image_export.py'', ''/dev/sdb1'']"
  let ?failing = "demo_env\<lparr>check_call := (\<lambda>command timeout s.
            (CalledProcessError ''Command returned non-zero exit status 2.'',
             s\<lparr>walk := demo_walk\<rparr>))\<rparr>"
  let ?docker = "demo_env\<lparr>DOCKER_ENABLED := True\<rparr>"
  have local: "\<not> (DOCKER_ENABLED demo_env \<and> job_docker_image demo_env \<noteq> PNone)"
    by (simp add: demo_env_def)
  have run: "image_export demo_env ?cmd ''/out'' ''/dev/sdb1'' 7200 demo_state =
     (Inr (collect_file_paths (demo_walk ''/out'')),
      demo_state\<lparr>walk := demo_walk,
                  invoked := [CheckCall [''sudo'', ''image_export.py'', ''/dev/sdb1''] 7200]\<rparr>)"
    unfolding image_export_local [OF local]
    by (simp add: demo_env_def demo_state_def record_call_def)
  have paths: "collect_file_paths (demo_walk ''/out'') =
      concat (map (\<lambda>(dirpath, dirnames, filenames). map (os_path_join dirpath) filenames)
               (demo_walk ''/out''))"
    using extraction_result [OF run] by simp
  have paths': "concat (map (\<lambda>(dirpath, dirnames, filenames). map (os_path_join dirpath) filenames)
               (demo_walk ''/out'')) = [''/out/a.txt'', ''/out/d/b.txt'']"
    by (simp add: demo_walk_def os_path_join_def)
  have fails: "fst (check_call ?failing (''sudo'' # ?cmd) 7200 demo_state) \<noteq> Completed"
    by simp
  have f: "\<exists>err. fst (image_export ?failing ?cmd ''/out'' ''/dev/sdb1'' 7200 demo_state) = Inl err"
    using extraction_result [OF surjective_pairing, of ?failing ?cmd "''/out''" "''/dev/sdb1''"
        7200 demo_state] fails
    by blast
  have dock: "DOCKER_ENABLED ?docker \<and> job_docker_image ?docker \<noteq> PNone"
    by (simp add: demo_env_def job_docker_image_def dict_get_def)
  have d: "\<exists>err. fst (image_export ?docker ?cmd ''/out'' ''/dev/sdb1'' 7200 demo_state) = Inl err"
    using extraction_result [OF surjective_pairing, of ?docker ?cmd "''/out''" "''/dev/sdb1''"
        7200 demo_state] dock
    by blast
  show ?thesis
    using f d by (simp add: run paths paths')
qed

subsection \<open>Cracking: auxiliary facts\<close>

text \<open>
  \<^verbatim>\<open>rsplit(sep, 1)\<close> cuts a string that has the separator at its last occurrence, and in
  one way only; it returns a string without the separator whole.
\<close>

lemma rsplit1_no_sep:
  assumes "sep \<notin> set line"
  shows "rsplit1 sep line = [line]"
proof -
  have "dropWhile (\<lambda>c. c \<noteq> sep) (rev line) = []"
    using assms by (auto simp: dropWhile_eq_Nil_conv)
  then show ?thesis
    by (simp add: rsplit1_def)
qed

lemma rsplit1_sep:
  assumes "sep \<in> set line"
  shows "\<exists>h p. rsplit1 sep line = [h, p] \<and> line = h @ sep # p \<and> sep \<notin> set p"
proof -
  let ?P = "\<lambda>c. c \<noteq> sep"
  let ?r = "rev line"
  have ne: "dropWhile ?P ?r \<noteq> []"
    using assms by (auto simp: dropWhile_eq_Nil_conv)
  then have hd: "hd (dropWhile ?P ?r) = sep"
    using hd_dropWhile [of ?P ?r] by simp
  from ne hd have dw: "dropWhile ?P ?r = sep # tl (dropWhile ?P ?r)"
    by (cases "dropWhile ?P ?r") auto
  have "?r = takeWhile ?P ?r @ dropWhile ?P ?r"
    by simp
  then have "?r = takeWhile ?P ?r @ sep # tl (dropWhile ?P ?r)"
    using dw by simp
  then have "rev ?r = rev (takeWhile ?P ?r @ sep # tl (dropWhile ?P ?r))"
    by simp
  then have line: "line = rev (tl (dropWhile ?P ?r)) @ sep # rev (takeWhile ?P ?r)"
    by simp
  have notin: "sep \<notin> set (rev (takeWhile ?P ?r))"
    by (auto dest: set_takeWhileD)
  have "rsplit1 sep line = [rev (tl (dropWhile ?P ?r)), rev (takeWhile ?P ?r)]"
    using ne by (simp add: rsplit1_def Let_def)
  with line notin show ?thesis
    by blast
qed

lemma split_unique:
  assumes "h @ sep # p = h' @ sep # p'" and "sep \<notin> set p" and "sep \<notin> set p'"
  shows "h = h' \<and> p = p'"
  using assms
proof (induction h arbitrary: h')
  case Nil
  then show ?case
    by (cases h') auto
next
  case (Cons a h)
  then show ?case
    by (cases h') auto
qed

text \<open>
  The loop over the lines: it ends without an exception exactly when every line has a
  colon, and then gives the pairs of the lines, cut at their last colon, whose plaintext
  is not blank.
\<close>

lemma parse_pot_lines_colon:
  assumes "\<forall>line\<in>set lines. CHR '':'' \<in> set line"
  shows "\<exists>hps. list_all2 (\<lambda>line (h, p). line = h @ '':'' @ p \<and> CHR '':'' \<notin> set p) lines hps
           \<and> parse_pot_lines lines result =
               Inr (result @ map (\<lambda>(h, p). (h, rstrip p)) (filter (\<lambda>(h, p). rstrip p \<noteq> []) hps))"
  using assms
proof (induction lines arbitrary: result)
  case Nil
  then show ?case by simp
next
  case (Cons line rest)
  then obtain h p where hp: "rsplit1 (CHR '':'') line = [h, p]" "line = h @ CHR '':'' # p"
      "CHR '':'' \<notin> set p"
    using rsplit1_sep [of "CHR '':''" line] by auto
  show ?case
  proof (cases "rstrip p = []")
    case True
    from Cons obtain hps where
      "list_all2 (\<lambda>line (h, p). line = h @ '':'' @ p \<and> CHR '':'' \<notin> set p) rest hps"
      "parse_pot_lines rest result =
         Inr (result @ map (\<lambda>(h, p). (h, rstrip p)) (filter (\<lambda>(h, p). rstrip p \<noteq> []) hps))"
      by fastforce
    with hp True show ?thesis
      by (intro exI [of _ "(h, p) # hps"]) simp
  next
    case False
    from Cons obtain hps where
      "list_all2 (\<lambda>line (h, p). line = h @ '':'' @ p \<and> CHR '':'' \<notin> set p) rest hps"
      "parse_pot_lines rest (result @ [(h, rstrip p)]) =
         Inr ((result @ [(h, rstrip p)]) @
              map (\<lambda>(h, p). (h, rstrip p)) (filter (\<lambda>(h, p). rstrip p \<noteq> []) hps))"
      by fastforce
    with hp False show ?thesis
      by (intro exI [of _ "(h, p) # hps"]) simp
  qed
qed

lemma parse_pot_lines_no_colon:
  assumes "\<exists>line\<in>set lines. CHR '':'' \<notin> set line"
  shows "parse_pot_lines lines result =
           Inl (ValueError ''not enough values to unpack (expected 2, got 1)'')"
  using assms
proof (induction lines arbitrary: result)
  case Nil
  then show ?case by simp
next
  case (Cons line rest)
  show ?case
  proof (cases "CHR '':'' \<in> set line")
    case True
    then obtain h p where hp: "rsplit1 (CHR '':'') line = [h, p]"
      using rsplit1_sep [of "CHR '':''" line] by auto
    from True Cons.prems have "\<exists>line\<in>set rest. CHR '':'' \<notin> set line"
      by auto
    with Cons.IH hp show ?thesis
      by (simp add: Let_def)
  next
    case False
    then show ?thesis
      by (simp add: rsplit1_no_sep)
  qed
qed

text \<open>The marker is looked for in the hashes joined without a separator.\<close>

lemma join_empty_sep: "join [] xs = concat xs"
  by (induction "[] :: string" xs rule: join.induct) simp_all

lemma contains_iff: "contains needle hay \<longleftrightarrow> (\<exists>pre post. hay = pre @ needle @ post)"
proof (induction hay)
  case Nil
  then show ?case by auto
next
  case (Cons c cs)
  show ?case
  proof
    assume "contains needle (c # cs)"
    then consider "prefix needle (c # cs)" | "contains needle cs"
      by auto
    then show "\<exists>pre post. c # cs = pre @ needle @ post"
    proof cases
      case 1
      then obtain post where "c # cs = needle @ post"
        by (auto simp: prefix_def)
      then have "c # cs = [] @ needle @ post"
        by simp
      then show ?thesis
        by blast
    next
      case 2
      with Cons obtain pre post where "cs = pre @ needle @ post"
        by blast
      then have "c # cs = (c # pre) @ needle @ post"
        by simp
      then show ?thesis
        by blast
    qed
  next
    assume "\<exists>pre post. c # cs = pre @ needle @ post"
    then obtain pre post where eq: "c # cs = pre @ needle @ post"
      by blast
    show "contains needle (c # cs)"
    proof (cases pre)
      case Nil
      with eq have "prefix needle (c # cs)"
        by (simp add: prefix_def)
      then show ?thesis
        by simp
    next
      case (Cons a pre')
      with eq have "cs = pre' @ needle @ post"
        by simp
      with Cons.IH have "contains needle cs"
        by blast
      then show ?thesis
        by simp
    qed
  qed
qed

lemma contains_concat:
  assumes "h \<in> set hs" and "contains needle h"
  shows "contains needle (concat hs)"
proof -
  from assms(1) obtain before rest where hs: "hs = before @ h # rest"
    by (auto simp: in_set_conv_decomp)
  from assms(2) obtain pre post where h: "h = pre @ needle @ post"
    by (auto simp: contains_iff)
  have "concat hs = (concat before @ pre) @ needle @ (post @ concat rest)"
    by (simp add: hs h)
  then show ?thesis
    unfolding contains_iff by blast
qed

text \<open>
  The command and the result store in closed form, and the tools started by the function.
\<close>

lemma crack_command_eq:
  assumes "named_temporary_file e (join [CHR 0x0A] password_hashes) s = (hash_file, s1)"
  shows "crack_command e password_hashes tmp_dir extra_args s =
    (if \<not> isfile s1 (if isfile s1 (expanduser e ''~/password.lst'')
                       then expanduser e ''~/password.lst''
                       else ''/usr/share/john/password.lst'')
     then (Inl (TurbiniaException ''No password list available''), s1)
     else if contains ''$y$'' (concat password_hashes) then
       (Inr ([''john'', ''--format=crypt'',
              ''--wordlist='' @ (if isfile s1 (expanduser e ''~/password.lst'')
                                 then expanduser e ''~/password.lst''
                                 else ''/usr/share/john/password.lst''),
              hash_file],
             expanduser e ''~/.john/john.pot''),
        (if isfile s1 (expanduser e ''~/turbinia-password-cracking.rules'') then s1
         else snd (named_temporary_file e (join [CHR 0x0A] ['':'', ''d'']) s1)))
     else
       (Inr ([''hashcat'', ''--force'', ''-a'', ''0'']
             @ (if extra_args = [] then [] else split_on (CHR '' '') extra_args)
             @ [''--potfile-path='' @
                  os_path_join (if tmp_dir = [] then gettempdir e else tmp_dir) ''hashcat.pot'',
                hash_file,
                (if isfile s1 (expanduser e ''~/password.lst'')
                 then expanduser e ''~/password.lst''
                 else ''/usr/share/john/password.lst''),
                ''-r'',
                (if isfile s1 (expanduser e ''~/turbinia-password-cracking.rules'')
                 then expanduser e ''~/turbinia-password-cracking.rules''
                 else temp_name e (temp_count s1))],
             os_path_join (if tmp_dir = [] then gettempdir e else tmp_dir) ''hashcat.pot''),
        (if isfile s1 (expanduser e ''~/turbinia-password-cracking.rules'') then s1
         else snd (named_temporary_file e (join [CHR 0x0A] ['':'', ''d'']) s1))))"
proof -
  from assms have h: "hash_file = temp_name e (temp_count s)"
    and s1: "s1 = s\<lparr>files := (files s)(temp_name e (temp_count s) \<mapsto>
                                          join [CHR 0x0A] password_hashes),
                      temp_count := Suc (temp_count s)\<rparr>"
    by (auto simp: named_temporary_file_def Let_def)
  show ?thesis
    unfolding h s1
    by (simp add: crack_command_def Let_def join_empty_sep named_temporary_file_def)
qed

lemma crack_command_invoked:
  "invoked (snd (crack_command e password_hashes tmp_dir extra_args s)) = invoked s"
  by (simp add: crack_command_def named_temporary_file_def Let_def case_prod_beta)

lemma read_results_invoked:
  "invoked (snd (read_results e pot_file s)) = invoked s"
  by (auto simp: read_results_def split: option.splits sum.splits text_read.splits)

lemma bruteforce_ran:
  assumes "crack_command e password_hashes tmp_dir extra_args s = (Inr (cmd, pot_file), s1)"
    and "popen e cmd timeout s1 = (Ran timed_out, s2)"
  shows "bruteforce_password_hashes e password_hashes tmp_dir timeout extra_args s =
           read_results e pot_file (s2\<lparr>invoked := invoked s @ [Popen cmd timeout]\<rparr>)"
proof -
  have "invoked s1 = invoked s"
    using crack_command_invoked [of e password_hashes tmp_dir extra_args s] assms(1) by simp
  with assms show ?thesis
    by (simp add: bruteforce_password_hashes_def record_call_def)
qed

lemma bruteforce_invoked:
  assumes "crack_command e password_hashes tmp_dir extra_args s = (Inr (cmd, pot_file), s')"
  shows "invoked (snd (bruteforce_password_hashes e password_hashes tmp_dir timeout extra_args s)) =
           invoked s @ [Popen cmd timeout]"
proof -
  have inv: "invoked s' = invoked s"
    using crack_command_invoked [of e password_hashes tmp_dir extra_args s] assms by simp
  obtain outcome s'' where p: "popen e cmd timeout s' = (outcome, s'')"
    by (cases "popen e cmd timeout s'")
  show ?thesis
  proof (cases outcome)
    case (Ran timed_out)
    with assms p inv show ?thesis
      by (simp add: bruteforce_password_hashes_def read_results_invoked record_call_def)
  next
    case (PopenOSError msg)
    with assms p inv show ?thesis
      by (simp add: bruteforce_password_hashes_def record_call_def)
  qed
qed

text \<open>
  What reading the result store gives, outcome by outcome of \<^verbatim>\<open>open\<close>, of the decoding and
  of \<^verbatim>\<open>os.remove\<close>.
\<close>

lemma read_results_absent:
  assumes "files s pot_file = None"
  shows "read_results e pot_file s = (Inr [], s)"
  using assms by (simp add: read_results_def)

lemma read_results_decoded:
  assumes "files s pot_file = Some content" and "open_text e pot_file content = Decoded body"
  shows "read_results e pot_file s =
     (case parse_pot_lines (file_lines body) [] of
        Inl err \<Rightarrow> (Inl err, s)
      | Inr result \<Rightarrow>
          (case remove_error e pot_file of
             Some msg \<Rightarrow> (Inl (OSError msg), s)
           | None \<Rightarrow> (Inr result, s\<lparr>files := (files s)(pot_file := None)\<rparr>)))"
  using assms by (simp add: read_results_def)

lemma read_results_decode_error:
  assumes "files s pot_file = Some content" and "open_text e pot_file content = DecodeError before"
  shows "read_results e pot_file s =
     (case parse_pot_lines (file_lines before) [] of
        Inl err \<Rightarrow> (Inl err, s)
      | Inr result \<Rightarrow>
          (Inl (UnicodeDecodeError ''codec cannot decode the bytes of the file''), s))"
  using assms by (simp add: read_results_def)

lemma read_results_Inr:
  assumes "fst (read_results e pot_file s) = Inr pairs" and "files s pot_file = Some content"
  shows "\<exists>body. open_text e pot_file content = Decoded body
           \<and> (\<exists>acc. parse_pot_lines (file_lines body) [] = Inr acc)"
  using assms
  by (cases "open_text e pot_file content")
    (auto simp: read_results_def split: sum.splits option.splits)

text \<open>The example environment evaluated.\<close>

lemma demo_expanduser:
  "expanduser (demo_env\<lparr>popen := run\<rparr>) (CHR ''~'' # CHR ''/'' # rest) = ''/home/u/'' @ rest"
  by (simp add: expanduser_def demo_env_def)

lemma demo_temp_file:
  "named_temporary_file (demo_env\<lparr>popen := run\<rparr>) content s =
     (''/tmp/tmp'' @ digits (temp_count s),
      s\<lparr>files := (files s)(''/tmp/tmp'' @ digits (temp_count s) \<mapsto> content),
        temp_count := Suc (temp_count s)\<rparr>)"
  by (simp add: named_temporary_file_def demo_env_def Let_def)

lemma no_marker: "\<not> contains ''$y$'' (concat [''5f4dcc3b5aa765d61d8327deb882cf99''])"
  by simp

lemma demo_crack_command:
  "crack_command (demo_env\<lparr>popen := run\<rparr>) [''5f4dcc3b5aa765d61d8327deb882cf99''] ''/tmp''
     extra_args demo_state =
   (Inr ([''hashcat'', ''--force'', ''-a'', ''0'']
         @ (if extra_args = [] then [] else split_on (CHR '' '') extra_args)
         @ [''--potfile-path=/tmp/hashcat.pot'', ''/tmp/tmp0'', ''/home/u/password.lst'', ''-r'',
            ''/tmp/tmp1''],
         ''/tmp/hashcat.pot''),
    demo_state\<lparr>files := (files demo_state)
                  (''/tmp/tmp0'' \<mapsto> ''5f4dcc3b5aa765d61d8327deb882cf99'',
                   ''/tmp/tmp1'' \<mapsto> '':'' @ [CHR 0x0A] @ ''d''),
                temp_count := 2\<rparr>)"
  unfolding crack_command_eq [OF demo_temp_file]
  by (simp add: demo_expanduser demo_temp_file isfile_def demo_state_def digits_0 digits_1
      os_path_join_def no_marker numeral_2_eq_2)
    (simp add: demo_env_def digits_1)

lemma demo_env_popen: "demo_env\<lparr>popen := popen demo_env\<rparr> = demo_env"
  by simp

lemmas demo_crack_command_plain = demo_crack_command [of "popen demo_env", unfolded demo_env_popen]

lemmas demo_temp_file_plain = demo_temp_file [of "popen demo_env", unfolded demo_env_popen]

lemmas demo_expanduser_plain = demo_expanduser [of "popen demo_env", unfolded demo_env_popen]

lemma demo_lines:
  "file_lines (''abc:pass:word'' @ [CHR 0x0A] @ ''def: '' @ [CHR 0x0A]) =
     [''abc:pass:word'' @ [CHR 0x0A], ''def: '' @ [CHR 0x0A]]"
  by (simp add: file_lines_def)

lemma rstrip_examples:
  "rstrip (''word'' @ [CHR 0x0A]) = ''word''" "rstrip ('' '' @ [CHR 0x0A]) = []"
  by (simp_all add: rstrip_def is_space_def)

lemma home_crack_command:
  assumes "home e = ''/home/u''" and "gettempdir e = ''/tmp''"
    and "temp_name e = (\<lambda>n. ''/tmp/tmp'' @ digits n)"
  shows "crack_command e [''5f4dcc3b5aa765d61d8327deb882cf99''] ''/tmp'' [] demo_state =
   (Inr ([''hashcat'', ''--force'', ''-a'', ''0'', ''--potfile-path=/tmp/hashcat.pot'',
          ''/tmp/tmp0'', ''/home/u/password.lst'', ''-r'', ''/tmp/tmp1''],
         ''/tmp/hashcat.pot''),
    demo_state\<lparr>files := (files demo_state)
                  (''/tmp/tmp0'' \<mapsto> ''5f4dcc3b5aa765d61d8327deb882cf99'',
                   ''/tmp/tmp1'' \<mapsto> '':'' @ [CHR 0x0A] @ ''d''),
                temp_count := 2\<rparr>)"
  using assms
  by (simp add: crack_command_def named_temporary_file_def expanduser_def isfile_def
      demo_state_def Let_def digits_0 digits_1 os_path_join_def numeral_2_eq_2)

lemma demo_run:
  assumes "home e = ''/home/u''" and "gettempdir e = ''/tmp''"
    and "temp_name e = (\<lambda>n. ''/tmp/tmp'' @ digits n)"
    and "popen e = cracker_leaving timed_out content"
  shows "bruteforce_password_hashes e [''5f4dcc3b5aa765d61d8327deb882cf99''] ''/tmp'' 300 []
           demo_state =
         read_results e ''/tmp/hashcat.pot'' (demo_run_state content)"
proof -
  let ?cmd = "[''hashcat'', ''--force'', ''-a'', ''0'', ''--potfile-path=/tmp/hashcat.pot'',
               ''/tmp/tmp0'', ''/home/u/password.lst'', ''-r'', ''/tmp/tmp1'']"
  let ?s1 = "demo_state\<lparr>files := (files demo_state)
                  (''/tmp/tmp0'' \<mapsto> ''5f4dcc3b5aa765d61d8327deb882cf99'',
                   ''/tmp/tmp1'' \<mapsto> '':'' @ [CHR 0x0A] @ ''d''),
                temp_count := 2\<rparr>"
  note cc = home_crack_command [OF assms(1-3)]
  have run: "popen e ?cmd 300 ?s1 =
      (Ran timed_out, ?s1\<lparr>files := (files ?s1)(''/tmp/hashcat.pot'' \<mapsto> content)\<rparr>)"
    using assms(4) by (simp add: cracker_leaving_def)
  show ?thesis
    unfolding bruteforce_ran [OF cc run] by (simp add: demo_run_state_def demo_state_def)
qed

subsection \<open>Cracking: the password list\<close>

text \<open>
  Claim C7. The password list is the user's \<^verbatim>\<open>~/password.lst\<close> when that file exists, and
  \<^verbatim>\<open>/usr/share/john/password.lst\<close> when it does not and this one does: the cracker is then
  started, once, with that list on its command line. When neither file exists the call
  raises \<^verbatim>\<open>TurbiniaException\<close> with \<^verbatim>\<open>No password list available\<close> and no tool is
  started. The files are looked for in the state \<open>s1\<close> in which the code looks for them:
  after the hashes were written to their temporary file \<open>hash_file\<close>.
\<close>

theorem wordlist_resolution:
  assumes "named_temporary_file e (join [CHR 0x0A] password_hashes) s = (hash_file, s1)"
  shows
    "(isfile s1 (expanduser e ''~/password.lst'') \<longrightarrow>
        (\<exists>cmd. invoked (snd (bruteforce_password_hashes e password_hashes tmp_dir timeout
                                 extra_args s)) = invoked s @ [Popen cmd timeout]
           \<and> (cmd = [''john'', ''--format=crypt'',
                      ''--wordlist='' @ expanduser e ''~/password.lst'', hash_file]
              \<or> (\<exists>options rules.
                    cmd = ''hashcat'' # options
                          @ [hash_file, expanduser e ''~/password.lst'', ''-r'', rules]))))
   \<and> (\<not> isfile s1 (expanduser e ''~/password.lst'')
        \<and> isfile s1 ''/usr/share/john/password.lst'' \<longrightarrow>
        (\<exists>cmd. invoked (snd (bruteforce_password_hashes e password_hashes tmp_dir timeout
                                 extra_args s)) = invoked s @ [Popen cmd timeout]
           \<and> (cmd = [''john'', ''--format=crypt'',
                      ''--wordlist=/usr/share/john/password.lst'', hash_file]
              \<or> (\<exists>options rules.
                    cmd = ''hashcat'' # options
                          @ [hash_file, ''/usr/share/john/password.lst'', ''-r'', rules]))))
   \<and> (\<not> isfile s1 (expanduser e ''~/password.lst'')
        \<and> \<not> isfile s1 ''/usr/share/john/password.lst'' \<longrightarrow>
        bruteforce_password_hashes e password_hashes tmp_dir timeout extra_args s =
          (Inl (TurbiniaException ''No password list available''), s1)
        \<and> invoked s1 = invoked s)"
proof (intro conjI impI)
  assume u: "isfile s1 (expanduser e ''~/password.lst'')"
  show "\<exists>cmd. invoked (snd (bruteforce_password_hashes e password_hashes tmp_dir timeout
                                 extra_args s)) = invoked s @ [Popen cmd timeout]
           \<and> (cmd = [''john'', ''--format=crypt'',
                      ''--wordlist='' @ expanduser e ''~/password.lst'', hash_file]
              \<or> (\<exists>options rules.
                    cmd = ''hashcat'' # options
                          @ [hash_file, expanduser e ''~/password.lst'', ''-r'', rules]))"
  proof (cases "contains ''$y$'' (concat password_hashes)")
    case True
    with u obtain s2 where
      "crack_command e password_hashes tmp_dir extra_args s =
         (Inr ([''john'', ''--format=crypt'',
                ''--wordlist='' @ expanduser e ''~/password.lst'', hash_file],
               expanduser e ''~/.john/john.pot''), s2)"
      unfolding crack_command_eq [OF assms] by simp
    from bruteforce_invoked [OF this] show ?thesis
      by blast
  next
    case False
    with u obtain options rules pot s2 where
      "crack_command e password_hashes tmp_dir extra_args s =
         (Inr (''hashcat'' # options
               @ [hash_file, expanduser e ''~/password.lst'', ''-r'', rules], pot), s2)"
      unfolding crack_command_eq [OF assms]
      by (simp del: append_assoc add: append_assoc [symmetric])
    from bruteforce_invoked [OF this] show ?thesis
      by blast
  qed
next
  assume u: "\<not> isfile s1 (expanduser e ''~/password.lst'')
        \<and> isfile s1 ''/usr/share/john/password.lst''"
  show "\<exists>cmd. invoked (snd (bruteforce_password_hashes e password_hashes tmp_dir timeout
                                 extra_args s)) = invoked s @ [Popen cmd timeout]
           \<and> (cmd = [''john'', ''--format=crypt'',
                      ''--wordlist=/usr/share/john/password.lst'', hash_file]
              \<or> (\<exists>options rules.
                    cmd = ''hashcat'' # options
                          @ [hash_file, ''/usr/share/john/password.lst'', ''-r'', rules]))"
  proof (cases "contains ''$y$'' (concat password_hashes)")
    case True
    with u obtain s2 where
      "crack_command e password_hashes tmp_dir extra_args s =
         (Inr ([''john'', ''--format=crypt'',
                ''--wordlist=/usr/share/john/password.lst'', hash_file],
               expanduser e ''~/.john/john.pot''), s2)"
      unfolding crack_command_eq [OF assms] by simp
    from bruteforce_invoked [OF this] show ?thesis
      by blast
  next
    case False
    with u obtain options rules pot s2 where
      "crack_command e password_hashes tmp_dir extra_args s =
         (Inr (''hashcat'' # options
               @ [hash_file, ''/usr/share/john/password.lst'', ''-r'', rules], pot), s2)"
      unfolding crack_command_eq [OF assms]
      by (simp del: append_assoc add: append_assoc [symmetric])
    from bruteforce_invoked [OF this] show ?thesis
      by blast
  qed
next
  assume u: "\<not> isfile s1 (expanduser e ''~/password.lst'')
        \<and> \<not> isfile s1 ''/usr/share/john/password.lst''"
  then show "bruteforce_password_hashes e password_hashes tmp_dir timeout extra_args s =
          (Inl (TurbiniaException ''No password list available''), s1)"
    unfolding bruteforce_password_hashes_def crack_command_eq [OF assms] by simp
  from assms show "invoked s1 = invoked s"
    by (auto simp: named_temporary_file_def Let_def)
qed

theorem wordlist_resolution_witness:
  "(\<exists>cmd. invoked (snd (bruteforce_password_hashes demo_env
                           [''5f4dcc3b5aa765d61d8327deb882cf99''] ''/tmp'' 300 [] demo_state)) =
             [Popen cmd 300]
         \<and> (cmd = [''john'', ''--format=crypt'', ''--wordlist=/home/u/password.lst'',
                    ''/tmp/tmp0'']
            \<or> (\<exists>options rules.
                  cmd = ''hashcat'' # options
                        @ [''/tmp/tmp0'', ''/home/u/password.lst'', ''-r'', rules])))
   \<and> (\<exists>cmd. invoked (snd (bruteforce_password_hashes demo_env
                           [''5f4dcc3b5aa765d61d8327deb882cf99''] ''/tmp'' 300 []
                           (demo_state\<lparr>files := [''/usr/share/john/password.lst'' \<mapsto>
                                                    ''123456'']\<rparr>))) =
             [Popen cmd 300]
         \<and> (cmd = [''john'', ''--format=crypt'', ''--wordlist=/usr/share/john/password.lst'',
                    ''/tmp/tmp0'']
            \<or> (\<exists>options rules.
                  cmd = ''hashcat'' # options
                        @ [''/tmp/tmp0'', ''/usr/share/john/password.lst'', ''-r'', rules])))
   \<and> bruteforce_password_hashes demo_env [''5f4dcc3b5aa765d61d8327deb882cf99''] ''/tmp'' 300 []
         (demo_state\<lparr>files := Map.empty\<rparr>) =
       (Inl (TurbiniaException ''No password list available''),
        demo_state\<lparr>files := [''/tmp/tmp0'' \<mapsto> ''5f4dcc3b5aa765d61d8327deb882cf99''],
                    temp_count := Suc 0\<rparr>)"
proof -
  let ?md5 = "''5f4dcc3b5aa765d61d8327deb882cf99''"
  let ?system = "demo_state\<lparr>files := [''/usr/share/john/password.lst'' \<mapsto> ''123456'']\<rparr>"
  let ?none = "demo_state\<lparr>files := Map.empty\<rparr>"
  let ?after = "\<lambda>s. s\<lparr>files := (files s)(''/tmp/tmp0'' \<mapsto> ?md5), temp_count := Suc 0\<rparr>"
  have tmp: "named_temporary_file demo_env (join [CHR 0x0A] [?md5]) s = (''/tmp/tmp0'', ?after s)"
    if "temp_count s = 0" for s
    using demo_temp_file_plain [of "join [CHR 0x0A] [?md5]" s] that by (simp add: digits_0)
  have t1: "temp_count demo_state = 0" and t2: "temp_count ?system = 0"
    and t3: "temp_count ?none = 0" and inv: "invoked demo_state = []"
    by (simp_all add: demo_state_def)
  have u1: "isfile (?after demo_state) (expanduser demo_env ''~/password.lst'')"
    by (simp add: demo_expanduser_plain isfile_def demo_state_def)
  have u2: "\<not> isfile (?after ?system) (expanduser demo_env ''~/password.lst'')
      \<and> isfile (?after ?system) ''/usr/share/john/password.lst''"
    by (simp add: demo_expanduser_plain isfile_def)
  have u3: "\<not> isfile (?after ?none) (expanduser demo_env ''~/password.lst'')
      \<and> \<not> isfile (?after ?none) ''/usr/share/john/password.lst''"
    by (simp add: demo_expanduser_plain isfile_def)
  note w1 = wordlist_resolution [OF tmp [OF t1], of "''/tmp''" 300 "[]"]
  note w2 = wordlist_resolution [OF tmp [OF t2], of "''/tmp''" 300 "[]"]
  note w3 = wordlist_resolution [OF tmp [OF t3], of "''/tmp''" 300 "[]"]
  from w1 u1 have a:
    "\<exists>cmd. invoked (snd (bruteforce_password_hashes demo_env [?md5] ''/tmp'' 300 [] demo_state)) =
             invoked demo_state @ [Popen cmd 300]
         \<and> (cmd = [''john'', ''--format=crypt'',
                    ''--wordlist='' @ expanduser demo_env ''~/password.lst'', ''/tmp/tmp0'']
            \<or> (\<exists>options rules.
                  cmd = ''hashcat'' # options
                        @ [''/tmp/tmp0'', expanduser demo_env ''~/password.lst'', ''-r'', rules]))"
    by blast
  from w2 u2 have b:
    "\<exists>cmd. invoked (snd (bruteforce_password_hashes demo_env [?md5] ''/tmp'' 300 [] ?system)) =
             invoked ?system @ [Popen cmd 300]
         \<and> (cmd = [''john'', ''--format=crypt'', ''--wordlist=/usr/share/john/password.lst'',
                    ''/tmp/tmp0'']
            \<or> (\<exists>options rules.
                  cmd = ''hashcat'' # options
                        @ [''/tmp/tmp0'', ''/usr/share/john/password.lst'', ''-r'', rules]))"
    by blast
  from w3 u3 have c:
    "bruteforce_password_hashes demo_env [?md5] ''/tmp'' 300 [] ?none =
       (Inl (TurbiniaException ''No password list available''), ?after ?none)"
    by blast
  from a have a': "\<exists>cmd. invoked (snd (bruteforce_password_hashes demo_env [?md5] ''/tmp'' 300 []
                                    demo_state)) = [Popen cmd 300]
         \<and> (cmd = [''john'', ''--format=crypt'', ''--wordlist=/home/u/password.lst'',
                    ''/tmp/tmp0'']
            \<or> (\<exists>options rules.
                  cmd = ''hashcat'' # options
                        @ [''/tmp/tmp0'', ''/home/u/password.lst'', ''-r'', rules]))"
    by (simp add: inv demo_expanduser_plain)
  from b have b': "\<exists>cmd. invoked (snd (bruteforce_password_hashes demo_env [?md5] ''/tmp'' 300 []
                                    ?system)) = [Popen cmd 300]
         \<and> (cmd = [''john'', ''--format=crypt'', ''--wordlist=/usr/share/john/password.lst'',
                    ''/tmp/tmp0'']
            \<or> (\<exists>options rules.
                  cmd = ''hashcat'' # options
                        @ [''/tmp/tmp0'', ''/usr/share/john/password.lst'', ''-r'', rules]))"
    by (simp add: inv)
  from c have c': "bruteforce_password_hashes demo_env [?md5] ''/tmp'' 300 [] ?none =
       (Inl (TurbiniaException ''No password list available''),
        demo_state\<lparr>files := [''/tmp/tmp0'' \<mapsto> ?md5], temp_count := Suc 0\<rparr>)"
    by simp
  from a' b' c' show ?thesis
    by blast
qed

subsection \<open>Cracking: the choice of the tool\<close>

text \<open>
  Claim C3, as amended. With a password list available: if one of the hashes contains
  \<^verbatim>\<open>$y$\<close>, the command is \<^verbatim>\<open>john --format=crypt --wordlist=\<close> and the list, then the hash
  file, with no rules file, and the result store is \<^verbatim>\<open>~/.john/john.pot\<close>. If the hashes
  joined together do not contain \<^verbatim>\<open>$y$\<close>, the command is \<^verbatim>\<open>hashcat --force -a 0\<close>, then the
  extra arguments cut at every single space character when there are any, then
  \<^verbatim>\<open>--potfile-path=\<close> and the result store, the hash file, the password list, \<^verbatim>\<open>-r\<close> and
  the rules file; the result store is \<^verbatim>\<open>hashcat.pot\<close> in the temporary directory.
  (Hashes none of which has the marker, while two neighbours joined have it, are left out
  of this statement.)
\<close>

theorem tool_selection:
  assumes "named_temporary_file e (join [CHR 0x0A] password_hashes) s = (hash_file, s1)"
    and "crack_command e password_hashes tmp_dir extra_args s = (Inr (cmd, pot_file), s2)"
  shows
    "((\<exists>h\<in>set password_hashes. contains ''$y$'' h) \<longrightarrow>
        cmd = [''john'', ''--format=crypt'',
               ''--wordlist='' @ (if isfile s1 (expanduser e ''~/password.lst'')
                                  then expanduser e ''~/password.lst''
                                  else ''/usr/share/john/password.lst''),
               hash_file]
        \<and> pot_file = expanduser e ''~/.john/john.pot'')
   \<and> (\<not> contains ''$y$'' (concat password_hashes) \<longrightarrow>
        cmd = [''hashcat'', ''--force'', ''-a'', ''0'']
              @ (if extra_args = [] then [] else split_on (CHR '' '') extra_args)
              @ [''--potfile-path='' @ pot_file,
                 hash_file,
                 (if isfile s1 (expanduser e ''~/password.lst'')
                  then expanduser e ''~/password.lst''
                  else ''/usr/share/john/password.lst''),
                 ''-r'',
                 (if isfile s1 (expanduser e ''~/turbinia-password-cracking.rules'')
                  then expanduser e ''~/turbinia-password-cracking.rules''
                  else temp_name e (temp_count s1))]
        \<and> pot_file = os_path_join (if tmp_dir = [] then gettempdir e else tmp_dir) ''hashcat.pot'')"
proof (intro conjI impI)
  assume "\<exists>h\<in>set password_hashes. contains ''$y$'' h"
  then have m: "contains ''$y$'' (concat password_hashes)"
    by (auto intro: contains_concat)
  from assms(2) show "cmd = [''john'', ''--format=crypt'',
               ''--wordlist='' @ (if isfile s1 (expanduser e ''~/password.lst'')
                                  then expanduser e ''~/password.lst''
                                  else ''/usr/share/john/password.lst''),
               hash_file]"
    unfolding crack_command_eq [OF assms(1)] using m by (simp split: if_splits)
  from assms(2) show "pot_file = expanduser e ''~/.john/john.pot''"
    unfolding crack_command_eq [OF assms(1)] using m by (simp split: if_splits)
next
  assume m: "\<not> contains ''$y$'' (concat password_hashes)"
  from assms(2) show p: "pot_file =
      os_path_join (if tmp_dir = [] then gettempdir e else tmp_dir) ''hashcat.pot''"
    unfolding crack_command_eq [OF assms(1)] using m by (simp split: if_splits)
  from assms(2) show "cmd = [''hashcat'', ''--force'', ''-a'', ''0'']
              @ (if extra_args = [] then [] else split_on (CHR '' '') extra_args)
              @ [''--potfile-path='' @ pot_file,
                 hash_file,
                 (if isfile s1 (expanduser e ''~/password.lst'')
                  then expanduser e ''~/password.lst''
                  else ''/usr/share/john/password.lst''),
                 ''-r'',
                 (if isfile s1 (expanduser e ''~/turbinia-password-cracking.rules'')
                  then expanduser e ''~/turbinia-password-cracking.rules''
                  else temp_name e (temp_count s1))]"
    unfolding crack_command_eq [OF assms(1)] p using m by (simp split: if_splits)
qed

theorem tool_selection_witness:
  "fst (crack_command demo_env [''5f4dcc3b5aa765d61d8327deb882cf99'', ''$y$j9T$salt$hash'']
          ''/tmp'' ''-O'' demo_state) =
     Inr ([''john'', ''--format=crypt'', ''--wordlist=/home/u/password.lst'', ''/tmp/tmp0''],
          ''/home/u/.john/john.pot'')
   \<and> fst (crack_command demo_env [''5f4dcc3b5aa765d61d8327deb882cf99''] ''/tmp'' ''-O -w 3''
          demo_state) =
     Inr ([''hashcat'', ''--force'', ''-a'', ''0'', ''-O'', ''-w'', ''3'',
           ''--potfile-path=/tmp/hashcat.pot'', ''/tmp/tmp0'', ''/home/u/password.lst'', ''-r'',
           ''/tmp/tmp1''], ''/tmp/hashcat.pot'')"
proof -
  let ?md5 = "''5f4dcc3b5aa765d61d8327deb882cf99''"
  let ?s1 = "\<lambda>content. demo_state\<lparr>files := (files demo_state)(''/tmp/tmp0'' \<mapsto> content),
                                    temp_count := Suc 0\<rparr>"
  have tmp: "named_temporary_file demo_env content demo_state = (''/tmp/tmp0'', ?s1 content)"
    for content
    using demo_temp_file_plain [of content demo_state] by (simp add: demo_state_def digits_0)
  have user: "isfile (?s1 content) (expanduser demo_env ''~/password.lst'')" for content
    by (simp add: demo_expanduser_plain isfile_def demo_state_def)
  have rules: "\<not> isfile (?s1 content) (expanduser demo_env ''~/turbinia-password-cracking.rules'')"
    for content
    by (simp add: demo_expanduser_plain isfile_def demo_state_def)
  obtain cmd pot s2 where john:
    "crack_command demo_env [?md5, ''$y$j9T$salt$hash''] ''/tmp'' ''-O'' demo_state =
       (Inr (cmd, pot), s2)"
    unfolding crack_command_eq [OF tmp] using user by simp
  have marker: "\<exists>h\<in>set [?md5, ''$y$j9T$salt$hash'']. contains ''$y$'' h"
    by simp
  from tool_selection [OF tmp john] marker user
  have a: "cmd = [''john'', ''--format=crypt'', ''--wordlist=/home/u/password.lst'', ''/tmp/tmp0'']
      \<and> pot = ''/home/u/.john/john.pot''"
    by (simp add: demo_expanduser_plain)
  obtain cmd' pot' s2' where hashcat:
    "crack_command demo_env [?md5] ''/tmp'' ''-O -w 3'' demo_state = (Inr (cmd', pot'), s2')"
    unfolding crack_command_eq [OF tmp] using user by simp
  have tn: "temp_name demo_env (Suc 0) = ''/tmp/tmp1''"
    by (simp add: demo_env_def digits_1)
  from tool_selection [OF tmp hashcat] no_marker user rules
  have b: "cmd' = [''hashcat'', ''--force'', ''-a'', ''0'', ''-O'', ''-w'', ''3'',
           ''--potfile-path=/tmp/hashcat.pot'', ''/tmp/tmp0'', ''/home/u/password.lst'', ''-r'',
           ''/tmp/tmp1''] \<and> pot' = ''/tmp/hashcat.pot''"
    by (simp add: demo_expanduser_plain os_path_join_def tn)
  show ?thesis
    by (simp add: john hashcat a b)
qed

text \<open>
  The claim as stated, with the extra arguments ``split on whitespace'', fails: two spaces
  in a row give an empty argument on the command line of \<^verbatim>\<open>hashcat\<close>, which splitting on
  whitespace does not.
\<close>

theorem tool_selection_counterexample:
  "fst (crack_command demo_env [''5f4dcc3b5aa765d61d8327deb882cf99''] ''/tmp'' ''-O  -w 3''
          demo_state) =
     Inr ([''hashcat'', ''--force'', ''-a'', ''0'', ''-O'', [], ''-w'', ''3'',
           ''--potfile-path=/tmp/hashcat.pot'', ''/tmp/tmp0'', ''/home/u/password.lst'', ''-r'',
           ''/tmp/tmp1''], ''/tmp/hashcat.pot'')
   \<and> fst (crack_command demo_env [''5f4dcc3b5aa765d61d8327deb882cf99''] ''/tmp'' ''-O  -w 3''
          demo_state) \<noteq>
     Inr ([''hashcat'', ''--force'', ''-a'', ''0''] @ spec_whitespace_tokens ''-O  -w 3''
          @ [''--potfile-path=/tmp/hashcat.pot'', ''/tmp/tmp0'', ''/home/u/password.lst'', ''-r'',
             ''/tmp/tmp1''], ''/tmp/hashcat.pot'')"
  by (simp add: demo_crack_command_plain spec_whitespace_tokens_def is_space_def)

text \<open>
  The marker is searched in the hashes joined without a separator, so two neighbours can
  form it together although neither has it.
\<close>

lemma marker_across_hashes:
  "contains ''$y$'' (join [] [''$y'', ''$'']) \<and> \<not> contains ''$y$'' ''$y'' \<and> \<not> contains ''$y$'' ''$''"
  by simp

subsection \<open>Cracking: reading the result store\<close>

text \<open>
  Claim C2, as amended. After the tool ran, whether the timer terminated it or not: if the
  result store is not a file, the result is the empty list, without an exception; if it
  is a file that is opened and read as text without an exception, every line of the text
  has a colon, and \<^verbatim>\<open>os.remove\<close> does not fail, the result is, in the order of the lines,
  the pairs of the text before the last colon and the text after it without its trailing
  whitespace, for the lines where that is not empty, and the file is removed.
\<close>

theorem crack_results:
  assumes "crack_command e password_hashes tmp_dir extra_args s = (Inr (cmd, pot_file), s1)"
    and "popen e cmd timeout s1 = (Ran timed_out, s2)"
  shows
    "(files s2 pot_file = None \<longrightarrow>
        bruteforce_password_hashes e password_hashes tmp_dir timeout extra_args s =
        (Inr [], s2\<lparr>invoked := invoked s @ [Popen cmd timeout]\<rparr>))
   \<and> (\<forall>content body.
        files s2 pot_file = Some content
          \<and> open_text e pot_file content = Decoded body
          \<and> (\<forall>line\<in>set (file_lines body). CHR '':'' \<in> set line)
          \<and> remove_error e pot_file = None \<longrightarrow>
        (\<exists>hps.
           list_all2 (\<lambda>line (h, p). line = h @ '':'' @ p \<and> CHR '':'' \<notin> set p)
             (file_lines body) hps
           \<and> bruteforce_password_hashes e password_hashes tmp_dir timeout extra_args s =
               (Inr (map (\<lambda>(h, p). (h, rstrip p)) (filter (\<lambda>(h, p). rstrip p \<noteq> []) hps)),
                s2\<lparr>invoked := invoked s @ [Popen cmd timeout],
                   files := (files s2)(pot_file := None)\<rparr>)))"
proof (intro conjI allI impI)
  assume "files s2 pot_file = None"
  then show "bruteforce_password_hashes e password_hashes tmp_dir timeout extra_args s =
        (Inr [], s2\<lparr>invoked := invoked s @ [Popen cmd timeout]\<rparr>)"
    unfolding bruteforce_ran [OF assms] by (simp add: read_results_absent)
next
  fix content body
  assume a: "files s2 pot_file = Some content
          \<and> open_text e pot_file content = Decoded body
          \<and> (\<forall>line\<in>set (file_lines body). CHR '':'' \<in> set line)
          \<and> remove_error e pot_file = None"
  then obtain hps where hps:
    "list_all2 (\<lambda>line (h, p). line = h @ '':'' @ p \<and> CHR '':'' \<notin> set p) (file_lines body) hps"
    "parse_pot_lines (file_lines body) [] =
       Inr ([] @ map (\<lambda>(h, p). (h, rstrip p)) (filter (\<lambda>(h, p). rstrip p \<noteq> []) hps))"
    using parse_pot_lines_colon [of "file_lines body" "[]"] by blast
  let ?s = "s2\<lparr>invoked := invoked s @ [Popen cmd timeout]\<rparr>"
  have f: "files ?s pot_file = Some content"
    using a by simp
  have "bruteforce_password_hashes e password_hashes tmp_dir timeout extra_args s =
               (Inr (map (\<lambda>(h, p). (h, rstrip p)) (filter (\<lambda>(h, p). rstrip p \<noteq> []) hps)),
                s2\<lparr>invoked := invoked s @ [Popen cmd timeout],
                   files := (files s2)(pot_file := None)\<rparr>)"
    unfolding bruteforce_ran [OF assms] read_results_decoded [OF f conjunct1 [OF conjunct2 [OF a]]]
    using a hps(2) by simp
  with hps(1) show "\<exists>hps.
           list_all2 (\<lambda>line (h, p). line = h @ '':'' @ p \<and> CHR '':'' \<notin> set p)
             (file_lines body) hps
           \<and> bruteforce_password_hashes e password_hashes tmp_dir timeout extra_args s =
               (Inr (map (\<lambda>(h, p). (h, rstrip p)) (filter (\<lambda>(h, p). rstrip p \<noteq> []) hps)),
                s2\<lparr>invoked := invoked s @ [Popen cmd timeout],
                   files := (files s2)(pot_file := None)\<rparr>)"
    by blast
qed

theorem crack_results_witness:
  "fst (bruteforce_password_hashes
          (demo_env\<lparr>popen := cracker_leaving True
                      (''abc:pass:word'' @ [CHR 0x0A] @ ''def: '' @ [CHR 0x0A])\<rparr>)
          [''5f4dcc3b5aa765d61d8327deb882cf99''] ''/tmp'' 300 [] demo_state) =
     Inr [(''abc:pass'', ''word'')]
   \<and> \<not> isfile (snd (bruteforce_password_hashes
          (demo_env\<lparr>popen := cracker_leaving True
                      (''abc:pass:word'' @ [CHR 0x0A] @ ''def: '' @ [CHR 0x0A])\<rparr>)
          [''5f4dcc3b5aa765d61d8327deb882cf99''] ''/tmp'' 300 [] demo_state)) ''/tmp/hashcat.pot''
   \<and> fst (bruteforce_password_hashes (demo_env\<lparr>popen := (\<lambda>cmd timeout s. (Ran True, s))\<rparr>)
          [''5f4dcc3b5aa765d61d8327deb882cf99''] ''/tmp'' 300 [] demo_state) = Inr []"
proof -
  let ?content = "''abc:pass:word'' @ [CHR 0x0A] @ ''def: '' @ [CHR 0x0A]"
  let ?e = "demo_env\<lparr>popen := cracker_leaving True ?content\<rparr>"
  let ?idle = "demo_env\<lparr>popen := (\<lambda>cmd timeout s. (Ran True, s))\<rparr>"
  let ?hs = "[''5f4dcc3b5aa765d61d8327deb882cf99'']"
  let ?cmd = "[''hashcat'', ''--force'', ''-a'', ''0'', ''--potfile-path=/tmp/hashcat.pot'',
               ''/tmp/tmp0'', ''/home/u/password.lst'', ''-r'', ''/tmp/tmp1'']"
  let ?s1 = "demo_state\<lparr>files := (files demo_state)
                  (''/tmp/tmp0'' \<mapsto> ''5f4dcc3b5aa765d61d8327deb882cf99'',
                   ''/tmp/tmp1'' \<mapsto> '':'' @ [CHR 0x0A] @ ''d''),
                temp_count := 2\<rparr>"
  let ?s2 = "?s1\<lparr>files := (files ?s1)(''/tmp/hashcat.pot'' \<mapsto> ?content)\<rparr>"
  have cc: "crack_command (demo_env\<lparr>popen := run\<rparr>) ?hs ''/tmp'' [] demo_state =
      (Inr (?cmd, ''/tmp/hashcat.pot''), ?s1)" for run
    using demo_crack_command [of run "[]"] by simp
  have run: "popen ?e ?cmd 300 ?s1 = (Ran True, ?s2)"
    by (simp add: cracker_leaving_def)
  have decoded: "open_text ?e ''/tmp/hashcat.pot'' ?content = Decoded ?content"
    by (simp add: demo_env_def ascii_text_def)
  have removable: "remove_error ?e ''/tmp/hashcat.pot'' = None"
    by (simp add: demo_env_def)
  have present: "files ?s2 ''/tmp/hashcat.pot'' = Some ?content
      \<and> open_text ?e ''/tmp/hashcat.pot'' ?content = Decoded ?content
      \<and> (\<forall>line\<in>set (file_lines ?content). CHR '':'' \<in> set line)
      \<and> remove_error ?e ''/tmp/hashcat.pot'' = None"
    unfolding demo_lines decoded removable by simp
  from crack_results [OF cc run] present
  obtain hps where hps:
    "list_all2 (\<lambda>line (h, p). line = h @ '':'' @ p \<and> CHR '':'' \<notin> set p)
       (file_lines ?content) hps"
    "bruteforce_password_hashes ?e ?hs ''/tmp'' 300 [] demo_state =
       (Inr (map (\<lambda>(h, p). (h, rstrip p)) (filter (\<lambda>(h, p). rstrip p \<noteq> []) hps)),
        ?s2\<lparr>invoked := invoked demo_state @ [Popen ?cmd 300],
            files := (files ?s2)(''/tmp/hashcat.pot'' := None)\<rparr>)"
    by blast
  from hps(1) obtain h1 p1 h2 p2 where shape: "hps = [(h1, p1), (h2, p2)]"
    and l1: "''abc:pass'' @ CHR '':'' # (''word'' @ [CHR 0x0A]) = h1 @ CHR '':'' # p1"
      "CHR '':'' \<notin> set p1"
    and l2: "''def'' @ CHR '':'' # ('' '' @ [CHR 0x0A]) = h2 @ CHR '':'' # p2"
      "CHR '':'' \<notin> set p2"
    unfolding demo_lines by (auto simp: list_all2_Cons1)
  have "h1 = ''abc:pass'' \<and> p1 = ''word'' @ [CHR 0x0A]"
    using split_unique [OF l1(1) _ l1(2)] by simp
  moreover have "h2 = ''def'' \<and> p2 = '' '' @ [CHR 0x0A]"
    using split_unique [OF l2(1) _ l2(2)] by simp
  ultimately have pairs:
    "map (\<lambda>(h, p). (h, rstrip p)) (filter (\<lambda>(h, p). rstrip p \<noteq> []) hps) =
       [(''abc:pass'', ''word'')]"
    using rstrip_examples by (simp add: shape)
  have a: "fst (bruteforce_password_hashes ?e ?hs ''/tmp'' 300 [] demo_state) =
     Inr [(''abc:pass'', ''word'')]"
    using hps(2) pairs by simp
  have b: "\<not> isfile (snd (bruteforce_password_hashes ?e ?hs ''/tmp'' 300 [] demo_state))
     ''/tmp/hashcat.pot''"
    using hps(2) by (simp add: isfile_def)
  have idle: "popen ?idle ?cmd 300 ?s1 = (Ran True, ?s1)"
    by simp
  have absent: "files ?s1 ''/tmp/hashcat.pot'' = None"
    by (simp add: demo_state_def)
  from crack_results [OF cc idle] absent
  have c: "fst (bruteforce_password_hashes ?idle ?hs ''/tmp'' 300 [] demo_state) = Inr []"
    by simp
  from a b c show ?thesis
    by blast
qed

text \<open>
  The claim as stated, for every result store that exists, fails in four ways, each with
  an exception, no pairs, and the file left where it is: an empty line in the file (the
  \<^verbatim>\<open>ValueError\<close> of the tuple assignment); a byte that does not decode, here \<^verbatim>\<open>0xE9\<close> read
  in ASCII (\<^verbatim>\<open>UnicodeDecodeError\<close>); a file that may not be opened; a file that may not be
  removed (both \<^verbatim>\<open>OSError\<close>).
\<close>

theorem crack_results_counterexample:
  "fst (bruteforce_password_hashes
          (demo_env\<lparr>popen := cracker_leaving False (''abc:word'' @ [CHR 0x0A, CHR 0x0A])\<rparr>)
          [''5f4dcc3b5aa765d61d8327deb882cf99''] ''/tmp'' 300 [] demo_state) =
     Inl (ValueError ''not enough values to unpack (expected 2, got 1)'')
   \<and> isfile (snd (bruteforce_password_hashes
          (demo_env\<lparr>popen := cracker_leaving False (''abc:word'' @ [CHR 0x0A, CHR 0x0A])\<rparr>)
          [''5f4dcc3b5aa765d61d8327deb882cf99''] ''/tmp'' 300 [] demo_state)) ''/tmp/hashcat.pot''
   \<and> fst (bruteforce_password_hashes
          (demo_env\<lparr>popen := cracker_leaving False (''abc:p'' @ [CHR 0xE9] @ ''ss'' @ [CHR 0x0A])\<rparr>)
          [''5f4dcc3b5aa765d61d8327deb882cf99''] ''/tmp'' 300 [] demo_state) =
     Inl (UnicodeDecodeError ''codec cannot decode the bytes of the file'')
   \<and> isfile (snd (bruteforce_password_hashes
          (demo_env\<lparr>popen := cracker_leaving False (''abc:p'' @ [CHR 0xE9] @ ''ss'' @ [CHR 0x0A])\<rparr>)
          [''5f4dcc3b5aa765d61d8327deb882cf99''] ''/tmp'' 300 [] demo_state)) ''/tmp/hashcat.pot''
   \<and> fst (bruteforce_password_hashes
          (demo_env\<lparr>popen := cracker_leaving False (''abc:word'' @ [CHR 0x0A]),
                    open_text := (\<lambda>path content. OpenError ''[Errno 13] Permission denied'')\<rparr>)
          [''5f4dcc3b5aa765d61d8327deb882cf99''] ''/tmp'' 300 [] demo_state) =
     Inl (OSError ''[Errno 13] Permission denied'')
   \<and> isfile (snd (bruteforce_password_hashes
          (demo_env\<lparr>popen := cracker_leaving False (''abc:word'' @ [CHR 0x0A]),
                    open_text := (\<lambda>path content. OpenError ''[Errno 13] Permission denied'')\<rparr>)
          [''5f4dcc3b5aa765d61d8327deb882cf99''] ''/tmp'' 300 [] demo_state)) ''/tmp/hashcat.pot''
   \<and> fst (bruteforce_password_hashes
          (demo_env\<lparr>popen := cracker_leaving False (''abc:word'' @ [CHR 0x0A]),
                    remove_error := (\<lambda>path. Some ''[Errno 13] Permission denied'')\<rparr>)
          [''5f4dcc3b5aa765d61d8327deb882cf99''] ''/tmp'' 300 [] demo_state) =
     Inl (OSError ''[Errno 13] Permission denied'')
   \<and> isfile (snd (bruteforce_password_hashes
          (demo_env\<lparr>popen := cracker_leaving False (''abc:word'' @ [CHR 0x0A]),
                    remove_error := (\<lambda>path. Some ''[Errno 13] Permission denied'')\<rparr>)
          [''5f4dcc3b5aa765d61d8327deb882cf99''] ''/tmp'' 300 [] demo_state)) ''/tmp/hashcat.pot''"
proof -
  let ?perm = "''[Errno 13] Permission denied''"
  let ?blank = "demo_env\<lparr>popen := cracker_leaving False (''abc:word'' @ [CHR 0x0A, CHR 0x0A])\<rparr>"
  let ?latin = "demo_env\<lparr>popen :=
                  cracker_leaving False (''abc:p'' @ [CHR 0xE9] @ ''ss'' @ [CHR 0x0A])\<rparr>"
  let ?closed = "demo_env\<lparr>popen := cracker_leaving False (''abc:word'' @ [CHR 0x0A]),
                    open_text := (\<lambda>path content. OpenError ?perm)\<rparr>"
  let ?kept = "demo_env\<lparr>popen := cracker_leaving False (''abc:word'' @ [CHR 0x0A]),
                    remove_error := (\<lambda>path. Some ?perm)\<rparr>"
  have fields: "home demo_env = ''/home/u''" "gettempdir demo_env = ''/tmp''"
    "temp_name demo_env = (\<lambda>n. ''/tmp/tmp'' @ digits n)" "open_text demo_env = ascii_text"
    "remove_error demo_env = (\<lambda>path. None)"
    by (simp_all add: demo_env_def)
  have a: "bruteforce_password_hashes ?blank [''5f4dcc3b5aa765d61d8327deb882cf99''] ''/tmp'' 300 []
      demo_state =
      (Inl (ValueError ''not enough values to unpack (expected 2, got 1)''),
       demo_run_state (''abc:word'' @ [CHR 0x0A, CHR 0x0A]))"
  proof -
    have "bruteforce_password_hashes ?blank [''5f4dcc3b5aa765d61d8327deb882cf99''] ''/tmp'' 300 []
        demo_state =
      read_results ?blank ''/tmp/hashcat.pot'' (demo_run_state (''abc:word'' @ [CHR 0x0A, CHR 0x0A]))"
      by (rule demo_run) (simp_all add: fields)
    then show ?thesis
      by (simp add: read_results_def demo_run_state_def fields ascii_text_def file_lines_def
          rsplit1_def rstrip_def is_space_def Let_def)
  qed
  have b: "bruteforce_password_hashes ?latin [''5f4dcc3b5aa765d61d8327deb882cf99''] ''/tmp'' 300 []
      demo_state =
      (Inl (UnicodeDecodeError ''codec cannot decode the bytes of the file''),
       demo_run_state (''abc:p'' @ [CHR 0xE9] @ ''ss'' @ [CHR 0x0A]))"
  proof -
    have "bruteforce_password_hashes ?latin [''5f4dcc3b5aa765d61d8327deb882cf99''] ''/tmp'' 300 []
        demo_state =
      read_results ?latin ''/tmp/hashcat.pot''
        (demo_run_state (''abc:p'' @ [CHR 0xE9] @ ''ss'' @ [CHR 0x0A]))"
      by (rule demo_run) (simp_all add: fields)
    then show ?thesis
      by (simp add: read_results_def demo_run_state_def fields ascii_text_def file_lines_def)
  qed
  have c: "bruteforce_password_hashes ?closed [''5f4dcc3b5aa765d61d8327deb882cf99''] ''/tmp'' 300 []
      demo_state =
      (Inl (OSError ?perm), demo_run_state (''abc:word'' @ [CHR 0x0A]))"
  proof -
    have "bruteforce_password_hashes ?closed [''5f4dcc3b5aa765d61d8327deb882cf99''] ''/tmp'' 300 []
        demo_state =
      read_results ?closed ''/tmp/hashcat.pot'' (demo_run_state (''abc:word'' @ [CHR 0x0A]))"
      by (rule demo_run) (simp_all add: fields)
    then show ?thesis
      by (simp add: read_results_def demo_run_state_def)
  qed
  have d: "bruteforce_password_hashes ?kept [''5f4dcc3b5aa765d61d8327deb882cf99''] ''/tmp'' 300 []
      demo_state =
      (Inl (OSError ?perm), demo_run_state (''abc:word'' @ [CHR 0x0A]))"
  proof -
    have "bruteforce_password_hashes ?kept [''5f4dcc3b5aa765d61d8327deb882cf99''] ''/tmp'' 300 []
        demo_state =
      read_results ?kept ''/tmp/hashcat.pot'' (demo_run_state (''abc:word'' @ [CHR 0x0A]))"
      by (rule demo_run) (simp_all add: fields)
    then show ?thesis
      by (simp add: read_results_def demo_run_state_def fields ascii_text_def file_lines_def
          rsplit1_def rstrip_def is_space_def Let_def)
  qed
  have kept: "isfile (demo_run_state content) ''/tmp/hashcat.pot''" for content
    by (simp add: demo_run_state_def isfile_def)
  show ?thesis
    unfolding a b c d by (simp add: kept)
qed

text \<open>
  Claim C9. After the tool ran, with a result store that is a file: whenever a line that
  is read from it has no colon (in a file that decodes as a whole, or before the place
  where the decoding fails), the call raises the \<^verbatim>\<open>ValueError\<close> of the tuple assignment
  and leaves the file where it is: the line is not skipped, and the exception is not the
  \<^verbatim>\<open>TurbiniaException\<close> of the module. The call returns a list of pairs only if the file
  decodes and every line of it has a colon.
\<close>

theorem colonless_line_raises:
  assumes "crack_command e password_hashes tmp_dir extra_args s = (Inr (cmd, pot_file), s1)"
    and "popen e cmd timeout s1 = (Ran timed_out, s2)"
    and "files s2 pot_file = Some content"
  shows
    "(\<forall>body.
        (open_text e pot_file content = Decoded body
           \<or> open_text e pot_file content = DecodeError body)
          \<and> (\<exists>line\<in>set (file_lines body). CHR '':'' \<notin> set line) \<longrightarrow>
        bruteforce_password_hashes e password_hashes tmp_dir timeout extra_args s =
        (Inl (ValueError ''not enough values to unpack (expected 2, got 1)''),
         s2\<lparr>invoked := invoked s @ [Popen cmd timeout]\<rparr>))
   \<and> ((\<exists>pairs. fst (bruteforce_password_hashes e password_hashes tmp_dir timeout extra_args s)
                  = Inr pairs) \<longrightarrow>
        (\<exists>body. open_text e pot_file content = Decoded body
           \<and> list_all (\<lambda>line. CHR '':'' \<in> set line) (file_lines body)))"
proof (intro conjI allI impI)
  fix body
  assume a: "(open_text e pot_file content = Decoded body
           \<or> open_text e pot_file content = DecodeError body)
          \<and> (\<exists>line\<in>set (file_lines body). CHR '':'' \<notin> set line)"
  let ?s = "s2\<lparr>invoked := invoked s @ [Popen cmd timeout]\<rparr>"
  have f: "files ?s pot_file = Some content"
    using assms(3) by simp
  from a have p: "parse_pot_lines (file_lines body) [] =
      Inl (ValueError ''not enough values to unpack (expected 2, got 1)'')"
    by (intro parse_pot_lines_no_colon) blast
  from a consider "open_text e pot_file content = Decoded body"
    | "open_text e pot_file content = DecodeError body"
    by blast
  then show "bruteforce_password_hashes e password_hashes tmp_dir timeout extra_args s =
        (Inl (ValueError ''not enough values to unpack (expected 2, got 1)''), ?s)"
  proof cases
    case 1
    show ?thesis
      unfolding bruteforce_ran [OF assms(1,2)] read_results_decoded [OF f 1] by (simp add: p)
  next
    case 2
    show ?thesis
      unfolding bruteforce_ran [OF assms(1,2)] read_results_decode_error [OF f 2]
      by (simp add: p)
  qed
next
  assume "\<exists>pairs. fst (bruteforce_password_hashes e password_hashes tmp_dir timeout extra_args s)
                  = Inr pairs"
  then obtain pairs where
    r: "fst (read_results e pot_file (s2\<lparr>invoked := invoked s @ [Popen cmd timeout]\<rparr>)) = Inr pairs"
    unfolding bruteforce_ran [OF assms(1,2)] by blast
  have f: "files (s2\<lparr>invoked := invoked s @ [Popen cmd timeout]\<rparr>) pot_file = Some content"
    using assms(3) by simp
  from read_results_Inr [OF r f] obtain body acc where
    d: "open_text e pot_file content = Decoded body"
    and ok: "parse_pot_lines (file_lines body) [] = Inr acc"
    by blast
  have "list_all (\<lambda>line. CHR '':'' \<in> set line) (file_lines body)"
  proof (rule ccontr)
    assume "\<not> list_all (\<lambda>line. CHR '':'' \<in> set line) (file_lines body)"
    then have "\<exists>line\<in>set (file_lines body). CHR '':'' \<notin> set line"
      by (simp add: list_all_iff)
    from parse_pot_lines_no_colon [OF this, of "[]"] ok show False
      by simp
  qed
  with d show "\<exists>body. open_text e pot_file content = Decoded body
           \<and> list_all (\<lambda>line. CHR '':'' \<in> set line) (file_lines body)"
    by blast
qed

theorem colonless_line_raises_witness:
  "bruteforce_password_hashes
     (demo_env\<lparr>popen := cracker_leaving False
                 (''abc:word'' @ [CHR 0x0A] @ ''no colon here'' @ [CHR 0x0A])\<rparr>)
     [''5f4dcc3b5aa765d61d8327deb882cf99''] ''/tmp'' 300 [] demo_state =
     (Inl (ValueError ''not enough values to unpack (expected 2, got 1)''),
      demo_state\<lparr>files := (files demo_state)
                  (''/tmp/tmp0'' \<mapsto> ''5f4dcc3b5aa765d61d8327deb882cf99'',
                   ''/tmp/tmp1'' \<mapsto> '':'' @ [CHR 0x0A] @ ''d'',
                   ''/tmp/hashcat.pot'' \<mapsto>
                     ''abc:word'' @ [CHR 0x0A] @ ''no colon here'' @ [CHR 0x0A]),
                temp_count := 2,
                invoked := [Popen [''hashcat'', ''--force'', ''-a'', ''0'',
                                   ''--potfile-path=/tmp/hashcat.pot'', ''/tmp/tmp0'',
                                   ''/home/u/password.lst'', ''-r'', ''/tmp/tmp1''] 300]\<rparr>)
   \<and> (\<exists>body. open_text demo_env ''/tmp/hashcat.pot''
                 (''abc:pass:word'' @ [CHR 0x0A] @ ''def: '' @ [CHR 0x0A]) = Decoded body
          \<and> list_all (\<lambda>line. CHR '':'' \<in> set line) (file_lines body))"
proof -
  let ?content = "''abc:word'' @ [CHR 0x0A] @ ''no colon here'' @ [CHR 0x0A]"
  let ?good = "''abc:pass:word'' @ [CHR 0x0A] @ ''def: '' @ [CHR 0x0A]"
  let ?e = "demo_env\<lparr>popen := cracker_leaving False ?content\<rparr>"
  let ?hs = "[''5f4dcc3b5aa765d61d8327deb882cf99'']"
  let ?cmd = "[''hashcat'', ''--force'', ''-a'', ''0'', ''--potfile-path=/tmp/hashcat.pot'',
               ''/tmp/tmp0'', ''/home/u/password.lst'', ''-r'', ''/tmp/tmp1'']"
  let ?s1 = "demo_state\<lparr>files := (files demo_state)
                  (''/tmp/tmp0'' \<mapsto> ''5f4dcc3b5aa765d61d8327deb882cf99'',
                   ''/tmp/tmp1'' \<mapsto> '':'' @ [CHR 0x0A] @ ''d''),
                temp_count := 2\<rparr>"
  let ?s2 = "?s1\<lparr>files := (files ?s1)(''/tmp/hashcat.pot'' \<mapsto> ?content)\<rparr>"
  let ?t2 = "?s1\<lparr>files := (files ?s1)(''/tmp/hashcat.pot'' \<mapsto> ?good)\<rparr>"
  have fields: "home demo_env = ''/home/u''" "gettempdir demo_env = ''/tmp''"
    "temp_name demo_env = (\<lambda>n. ''/tmp/tmp'' @ digits n)" "open_text demo_env = ascii_text"
    "remove_error demo_env = (\<lambda>path. None)"
    "popen demo_env = cracker_leaving False ?good"
    by (simp_all add: demo_env_def)
  have cc: "crack_command ?e ?hs ''/tmp'' [] demo_state = (Inr (?cmd, ''/tmp/hashcat.pot''), ?s1)"
    by (rule home_crack_command) (simp_all add: fields)
  have run: "popen ?e ?cmd 300 ?s1 = (Ran False, ?s2)"
    by (simp add: cracker_leaving_def)
  have present: "files ?s2 ''/tmp/hashcat.pot'' = Some ?content"
    by simp
  have bad: "(open_text ?e ''/tmp/hashcat.pot'' ?content = Decoded ?content
           \<or> open_text ?e ''/tmp/hashcat.pot'' ?content = DecodeError ?content)
          \<and> (\<exists>line\<in>set (file_lines ?content). CHR '':'' \<notin> set line)"
    by (simp add: fields ascii_text_def file_lines_def)
  have empty: "invoked demo_state = []"
    by (simp add: demo_state_def)
  from colonless_line_raises [OF cc run present] bad
  have "bruteforce_password_hashes ?e ?hs ''/tmp'' 300 [] demo_state =
        (Inl (ValueError ''not enough values to unpack (expected 2, got 1)''),
         ?s2\<lparr>invoked := invoked demo_state @ [Popen ?cmd 300]\<rparr>)"
    by blast
  then have a: "bruteforce_password_hashes ?e ?hs ''/tmp'' 300 [] demo_state =
     (Inl (ValueError ''not enough values to unpack (expected 2, got 1)''),
      demo_state\<lparr>files := (files demo_state)
                  (''/tmp/tmp0'' \<mapsto> ''5f4dcc3b5aa765d61d8327deb882cf99'',
                   ''/tmp/tmp1'' \<mapsto> '':'' @ [CHR 0x0A] @ ''d'',
                   ''/tmp/hashcat.pot'' \<mapsto> ?content),
                temp_count := 2,
                invoked := [Popen ?cmd 300]\<rparr>)"
    using empty by simp
  have cc': "crack_command demo_env ?hs ''/tmp'' [] demo_state =
      (Inr (?cmd, ''/tmp/hashcat.pot''), ?s1)"
    by (rule home_crack_command) (simp_all add: fields)
  have run': "popen demo_env ?cmd 300 ?s1 = (Ran False, ?t2)"
    by (simp add: fields cracker_leaving_def)
  have present': "files ?t2 ''/tmp/hashcat.pot'' = Some ?good"
    by simp
  have "bruteforce_password_hashes demo_env ?hs ''/tmp'' 300 [] demo_state =
      read_results demo_env ''/tmp/hashcat.pot'' (demo_run_state ?good)"
    by (rule demo_run) (simp_all add: fields)
  then have returns: "\<exists>pairs. fst (bruteforce_password_hashes demo_env ?hs ''/tmp'' 300 []
      demo_state) = Inr pairs"
    by (simp add: read_results_def demo_run_state_def fields ascii_text_def file_lines_def
        rsplit1_def rstrip_def is_space_def Let_def)
  from colonless_line_raises [OF cc' run' present'] returns
  have b: "\<exists>body. open_text demo_env ''/tmp/hashcat.pot'' ?good = Decoded body
          \<and> list_all (\<lambda>line. CHR '':'' \<in> set line) (file_lines body)"
    by blast
  from a b show ?thesis
    by blast
qed

end
